theory Spec2Isabelle
  imports Complex_Main "HOL-Library.Word" "HOL-Library.Char_ord" "HOL-Library.List_Lexorder"
begin

section \<open>Machine values\<close>

text \<open>
  \<^verbatim>\<open>unsigned long\<close> is 32 bits wide on the ESP32, so every timer of the sketch is a
  \<open>32 word\<close>: subtraction and addition wrap, \<open><\<close> and \<open>\<le>\<close> compare unsigned.
  \<open>millis t\<close> is what \<^verbatim>\<open>millis()\<close> returns \<open>t\<close> milliseconds after power-on.
\<close>

type_synonym ulong = "32 word"

definition millis :: "nat \<Rightarrow> ulong" where
  "millis t = of_nat t"

text \<open>
  A C \<^verbatim>\<open>float\<close> is either the error sentinel NaN or a number. Only assignment,
  \<^verbatim>\<open>isnan\<close>, \<^verbatim>\<open>>\<close> and formatting are applied to floats by the code below, so the
  number is kept as a real and rounding is left out; a comparison with NaN is false.
\<close>

datatype cfloat = NaN | Finite real

fun isnan :: "cfloat \<Rightarrow> bool" where
  "isnan NaN = True"
| "isnan (Finite x) = False"

fun fgt :: "cfloat \<Rightarrow> cfloat \<Rightarrow> bool" where
  "fgt (Finite a) (Finite b) = (a > b)"
| "fgt _ _ = False"

text \<open>
  The formatting and parsing routines of the Arduino core and of the C library are not
  part of the sketch. They are taken as parameters, collected in one record:
  \<^verbatim>\<open>String(x, 1)\<close>, \<^verbatim>\<open>String(n)\<close>, the \<^verbatim>\<open>printf\<close> conversions \<^verbatim>\<open>%.1f\<close>, \<^verbatim>\<open>%.2f\<close>,
  \<^verbatim>\<open>%d\<close> and \<^verbatim>\<open>%02lu\<close>, and \<^verbatim>\<open>String::toFloat\<close>, \<^verbatim>\<open>String::toInt\<close>.
\<close>

record corelib =
  String_f1 :: "cfloat \<Rightarrow> string"
  String_d :: "int \<Rightarrow> string"
  printf_f1 :: "cfloat \<Rightarrow> string"
  printf_f2 :: "cfloat \<Rightarrow> string"
  printf_d :: "int \<Rightarrow> string"
  printf_02lu :: "ulong \<Rightarrow> string"
  toFloat :: "string \<Rightarrow> cfloat"
  toInt :: "string \<Rightarrow> int"

section \<open>Global state\<close>

datatype SmsState = SMS_IDLE | SMS_MODE | SMS_NUMBER | SMS_CONTENT | SMS_WAIT

text \<open>
  A row of table \<open>readings\<close>. SQLite stores a NaN bound with \<^verbatim>\<open>sqlite3_bind_double\<close>
  as NULL, so a REAL column holds a number or NULL (\<open>None\<close>). The autoincrement id is
  the position of the row in the list, oldest first.
\<close>

record reading_row =
  r_timestamp :: string
  r_temp :: "real option"
  r_hum :: "real option"
  r_weight :: "real option"
  r_mq :: int

text \<open>The single row (id 1) of table \<open>settings\<close>.\<close>

record settings_row =
  st_phone :: string
  st_lim_t :: "real option"
  st_lim_h :: "real option"
  st_lim_w :: "real option"
  st_lim_a :: int

text \<open>
  The globals of the sketch, followed by what it has written to the outside: the bytes
  sent to the modem (\<^verbatim>\<open>SIM800\<close>), the lines of the debug console (\<^verbatim>\<open>Serial\<close>) and the
  two database tables. The modem's receive buffer is part of the state although no
  function of the sketch reads it. The LCD is left out.
\<close>

record state =
  temperature :: cfloat
  humidity :: cfloat
  weight :: cfloat
  mq135_raw :: int
  activePhoneNumber :: string
  lim_temp :: cfloat
  lim_hum :: cfloat
  lim_weight :: cfloat
  lim_air :: int
  session_expiry :: ulong
  is_logged_in :: bool
  lastSensorMillis :: ulong
  lastDbMillis :: ulong
  lastWifiCheck :: ulong
  currentSmsState :: SmsState
  smsTimer :: ulong
  lastSmsCooldown :: ulong
  smsQueueNum :: string
  smsQueueMsg :: string
  sim800_tx :: string
  sim800_rx :: string
  serial_log :: "string list"
  db_readings :: "reading_row list"
  db_settings :: settings_row

definition SESSION_TIMEOUT :: ulong where "SESSION_TIMEOUT = 1800000"
definition SENSOR_INTERVAL :: ulong where "SENSOR_INTERVAL = 2000"
definition SMS_COOLDOWN :: ulong where "SMS_COOLDOWN = 300000"
definition DB_SAVE_INTERVAL :: ulong where "DB_SAVE_INTERVAL = 30000"

text \<open>The initialisers of the globals; the tables as \<^verbatim>\<open>openDatabase\<close> creates them.\<close>

definition default_settings :: settings_row where
  "default_settings =
     \<lparr>st_phone = ''+254700000000'', st_lim_t = Some 40, st_lim_h = Some 85,
      st_lim_w = Some 50, st_lim_a = 400\<rparr>"

definition boot :: state where
  "boot =
     \<lparr>temperature = Finite 0, humidity = Finite 0, weight = Finite 0, mq135_raw = 0,
      activePhoneNumber = ''+254700000000'',
      lim_temp = Finite 40, lim_hum = Finite 85, lim_weight = Finite 50, lim_air = 400,
      session_expiry = 0, is_logged_in = False,
      lastSensorMillis = 0, lastDbMillis = 0, lastWifiCheck = 0,
      currentSmsState = SMS_IDLE, smsTimer = 0, lastSmsCooldown = 0,
      smsQueueNum = [], smsQueueMsg = [],
      sim800_tx = [], sim800_rx = [], serial_log = [],
      db_readings = [], db_settings = default_settings\<rparr>"

section \<open>Output channels\<close>

definition crlf :: string where
  "crlf = [CHR 0x0D, CHR 0x0A]"

definition SIM800_print :: "string \<Rightarrow> state \<Rightarrow> state" where
  "SIM800_print x s = s\<lparr>sim800_tx := sim800_tx s @ x\<rparr>"

definition SIM800_println :: "string \<Rightarrow> state \<Rightarrow> state" where
  "SIM800_println x s = s\<lparr>sim800_tx := sim800_tx s @ x @ crlf\<rparr>"

definition SIM800_write :: "char \<Rightarrow> state \<Rightarrow> state" where
  "SIM800_write c s = s\<lparr>sim800_tx := sim800_tx s @ [c]\<rparr>"

definition Serial_println :: "string \<Rightarrow> state \<Rightarrow> state" where
  "Serial_println x s = s\<lparr>serial_log := serial_log s @ [x]\<rparr>"

section \<open>SMS\<close>

definition triggerSMS :: "string \<Rightarrow> string \<Rightarrow> state \<Rightarrow> state" where
  "triggerSMS number message s =
     (if currentSmsState s = SMS_IDLE then
        Serial_println ''SMS Queued''
          (s\<lparr>smsQueueNum := number, smsQueueMsg := message, currentSmsState := SMS_MODE\<rparr>)
      else s)"

text \<open>\<open>now\<close> is the value of the one \<^verbatim>\<open>millis()\<close> read of \<^verbatim>\<open>manageSMS\<close>.\<close>

definition manageSMS :: "ulong \<Rightarrow> state \<Rightarrow> state" where
  "manageSMS now s =
     (case currentSmsState s of
        SMS_IDLE \<Rightarrow> s
      | SMS_MODE \<Rightarrow>
          (SIM800_println ''AT+CMGF=1'' s)\<lparr>smsTimer := now, currentSmsState := SMS_NUMBER\<rparr>
      | SMS_NUMBER \<Rightarrow>
          (if now - smsTimer s > 200 then
             (SIM800_println [CHR 0x22]
               (SIM800_print (smsQueueNum s)
                 (SIM800_print (''AT+CMGS='' @ [CHR 0x22]) s)))
               \<lparr>smsTimer := now, currentSmsState := SMS_CONTENT\<rparr>
           else s)
      | SMS_CONTENT \<Rightarrow>
          (if now - smsTimer s > 200 then
             (SIM800_write (CHR 0x1A) (SIM800_print (smsQueueMsg s) s))
               \<lparr>smsTimer := now, currentSmsState := SMS_WAIT\<rparr>
           else s)
      | SMS_WAIT \<Rightarrow>
          (if now - smsTimer s > 3000 then
             Serial_println ''SMS Processed'' (s\<lparr>currentSmsState := SMS_IDLE\<rparr>)
           else s))"

section \<open>Alerts\<close>

text \<open>The prefix of every alert text: the UTF-8 bytes of U+26A0 U+FE0F.\<close>

definition warning_sign :: string where
  "warning_sign = [CHR 0xE2, CHR 0x9A, CHR 0xA0, CHR 0xEF, CHR 0xB8, CHR 0x8F]"

text \<open>
  The \<^verbatim>\<open>if\<close>/\<^verbatim>\<open>else if\<close> chain of \<^verbatim>\<open>checkAlerts\<close> that sets \<^verbatim>\<open>msg\<close> and \<^verbatim>\<open>alert\<close>:
  \<open>None\<close> is \<^verbatim>\<open>alert == false\<close>, \<open>Some msg\<close> is \<^verbatim>\<open>alert == true\<close> with that text.
\<close>

definition alertMessage :: "corelib \<Rightarrow> state \<Rightarrow> string option" where
  "alertMessage L s =
     (if fgt (temperature s) (lim_temp s) then
        Some (warning_sign @ '' Alert: High Temperature! Reading: '' @ String_f1 L (temperature s)
              @ ''C. Limit: '' @ String_f1 L (lim_temp s))
      else if fgt (humidity s) (lim_hum s) then
        Some (warning_sign @ '' Alert: High Humidity! Reading: '' @ String_f1 L (humidity s)
              @ ''%. Limit: '' @ String_f1 L (lim_hum s))
      else if fgt (weight s) (lim_weight s) then
        Some (warning_sign @ '' Alert: Weight Exceeded! Reading: '' @ String_f1 L (weight s)
              @ ''kg. Limit: '' @ String_f1 L (lim_weight s))
      else if mq135_raw s > lim_air s then
        Some (warning_sign @ '' Alert: Poor Air Quality! Reading: '' @ String_d L (mq135_raw s)
              @ ''. Limit: '' @ String_d L (lim_air s))
      else None)"

text \<open>
  \<^verbatim>\<open>checkAlerts\<close> reads \<^verbatim>\<open>millis()\<close> twice: \<open>m1\<close> in the cooldown test and \<open>m2\<close> when it
  restamps \<^verbatim>\<open>lastSmsCooldown\<close>.
\<close>

definition checkAlerts :: "corelib \<Rightarrow> ulong \<Rightarrow> ulong \<Rightarrow> state \<Rightarrow> state" where
  "checkAlerts L m1 m2 s =
     (if m1 - lastSmsCooldown s < SMS_COOLDOWN then s
      else case alertMessage L s of
             None \<Rightarrow> s
           | Some msg \<Rightarrow> (triggerSMS (activePhoneNumber s) msg s)\<lparr>lastSmsCooldown := m2\<rparr>)"

text \<open>The order of the enumeration, closed into a cycle; \<open>SMS_IDLE\<close> waits for a job.\<close>

fun next_step :: "SmsState \<Rightarrow> SmsState" where
  "next_step SMS_IDLE = SMS_IDLE"
| "next_step SMS_MODE = SMS_NUMBER"
| "next_step SMS_NUMBER = SMS_CONTENT"
| "next_step SMS_CONTENT = SMS_WAIT"
| "next_step SMS_WAIT = SMS_IDLE"

section \<open>Session\<close>

text \<open>
  \<^verbatim>\<open>String::indexOf\<close>: the position of the first occurrence of \<open>sub\<close> in \<open>hay\<close>, or
  \<open>-1\<close>. \<open>indexOf_from\<close> carries the position reached.
\<close>

fun indexOf_from :: "string \<Rightarrow> string \<Rightarrow> nat \<Rightarrow> int" where
  "indexOf_from [] sub i = (if sub = [] then int i else - 1)"
| "indexOf_from (c # cs) sub i =
     (if take (length sub) (c # cs) = sub then int i else indexOf_from cs sub (Suc i))"

definition indexOf :: "string \<Rightarrow> string \<Rightarrow> int" where
  "indexOf hay sub = indexOf_from hay sub 0"

text \<open>
  \<^verbatim>\<open>is_authenticated\<close> returns its result together with the state it leaves. \<open>m1\<close> is
  the \<^verbatim>\<open>millis()\<close> read of the expiry test, \<open>m2\<close> the one of the renewal; \<open>cookie\<close> is the
  request's \<^verbatim>\<open>Cookie\<close> header (\<open>None\<close> when \<^verbatim>\<open>hasHeader\<close> is false).
\<close>

definition is_authenticated :: "ulong \<Rightarrow> ulong \<Rightarrow> string option \<Rightarrow> state \<Rightarrow> bool \<times> state" where
  "is_authenticated m1 m2 cookie s =
     (if \<not> is_logged_in s then (False, s)
      else if m1 > session_expiry s then (False, s\<lparr>is_logged_in := False\<rparr>)
      else case cookie of
             None \<Rightarrow> (False, s)
           | Some c \<Rightarrow>
               (if indexOf c ''ESPSESSIONID=1'' \<noteq> - 1
                then (True, s\<lparr>session_expiry := m2 + SESSION_TIMEOUT\<rparr>)
                else (False, s)))"

section \<open>Database\<close>

text \<open>
  \<open>local_time\<close> is the outcome of \<^verbatim>\<open>getLocalTime\<close> followed by \<^verbatim>\<open>strftime\<close> with
  \<^verbatim>\<open>%Y-%m-%d %H:%M:%S\<close>: \<open>None\<close> when the clock is not available.
\<close>

definition getTimestamp :: "string option \<Rightarrow> string" where
  "getTimestamp local_time = (case local_time of None \<Rightarrow> ''N/A'' | Some t \<Rightarrow> t)"

text \<open>\<^verbatim>\<open>sqlite3_bind_double\<close>: NaN is stored as NULL.\<close>

fun bind_double :: "cfloat \<Rightarrow> real option" where
  "bind_double NaN = None"
| "bind_double (Finite x) = Some x"

text \<open>\<^verbatim>\<open>sqlite3_column_double\<close>: NULL is read as 0.0.\<close>

fun column_double :: "real option \<Rightarrow> cfloat" where
  "column_double None = Finite 0"
| "column_double (Some x) = Finite x"

text \<open>\<^verbatim>\<open>sqlite3_column_int\<close> of a REAL or NULL value: truncated towards zero, NULL is 0.\<close>

fun column_int :: "real option \<Rightarrow> int" where
  "column_int None = 0"
| "column_int (Some x) = (if x < 0 then - \<lfloor>- x\<rfloor> else \<lfloor>x\<rfloor>)"

text \<open>
  \<^verbatim>\<open>saveToDatabase\<close>. \<open>ms\<close> is its \<^verbatim>\<open>millis()\<close> read; \<open>prepare_ok\<close> and \<open>step_ok\<close> say
  whether \<^verbatim>\<open>sqlite3_prepare_v2\<close> returned \<^verbatim>\<open>SQLITE_OK\<close> and \<^verbatim>\<open>sqlite3_step\<close>
  \<^verbatim>\<open>SQLITE_DONE\<close>.
\<close>

definition saveToDatabase ::
  "corelib \<Rightarrow> string option \<Rightarrow> ulong \<Rightarrow> bool \<Rightarrow> bool \<Rightarrow> state \<Rightarrow> state" where
  "saveToDatabase L local_time ms prepare_ok step_ok s =
     (let ts0 = getTimestamp local_time;
          ts = (if ts0 = ''N/A'' then ''Offline-'' @ printf_02lu L (ms div 1000) else ts0)
      in if prepare_ok then
           (if step_ok then
              Serial_println (''Saved: '' @ ts)
                (s\<lparr>db_readings := db_readings s @
                     [\<lparr>r_timestamp = ts, r_temp = bind_double (temperature s),
                       r_hum = bind_double (humidity s), r_weight = bind_double (weight s),
                       r_mq = mq135_raw s\<rparr>]\<rparr>)
            else s)
         else s)"

subsection \<open>The two queries\<close>

text \<open>
  \<^verbatim>\<open>SELECT timestamp, temp, hum, weight, mq FROM readings ORDER BY id DESC LIMIT 10\<close>
\<close>

definition query_history :: "reading_row list \<Rightarrow> reading_row list" where
  "query_history rows = take 10 (rev rows)"

text \<open>
  \<^verbatim>\<open>SELECT substr(timestamp, 1, 10) as day, AVG(temp), AVG(hum), AVG(weight), AVG(mq)
  FROM readings WHERE timestamp NOT LIKE 'Offline-%' GROUP BY day ORDER BY day DESC LIMIT 30\<close>

  \<^verbatim>\<open>LIKE\<close> ignores the case of ASCII letters; \<^verbatim>\<open>substr\<close> takes the first ten characters
  (the timestamps written by \<^verbatim>\<open>saveToDatabase\<close> are ASCII, one byte each); \<^verbatim>\<open>AVG\<close> skips
  NULLs and is NULL when nothing is left; text is compared bytewise.
\<close>

definition ascii_tolower :: "char \<Rightarrow> char" where
  "ascii_tolower c =
     (if 65 \<le> (of_char c :: nat) \<and> (of_char c :: nat) \<le> 90 then char_of (of_char c + 32 :: nat) else c)"

definition like_Offline :: "string \<Rightarrow> bool" where
  "like_Offline ts = (map ascii_tolower (take 8 ts) = ''offline-'')"

definition substr_1_10 :: "string \<Rightarrow> string" where
  "substr_1_10 ts = take 10 ts"

definition sql_avg :: "real option list \<Rightarrow> real option" where
  "sql_avg vs =
     (let xs = concat (map (\<lambda>v. case v of None \<Rightarrow> [] | Some x \<Rightarrow> [x]) vs)
      in if xs = [] then None else Some (sum_list xs / real (length xs)))"

record monthly_row =
  m_day :: string
  m_avg_temp :: "real option"
  m_avg_hum :: "real option"
  m_avg_weight :: "real option"
  m_avg_mq :: "real option"

definition query_monthly :: "reading_row list \<Rightarrow> monthly_row list" where
  "query_monthly rows =
     (let kept = filter (\<lambda>r. \<not> like_Offline (r_timestamp r)) rows;
          days = rev (sort (remdups (map (\<lambda>r. substr_1_10 (r_timestamp r)) kept)))
      in map (\<lambda>d. let g = filter (\<lambda>r. substr_1_10 (r_timestamp r) = d) kept
                   in \<lparr>m_day = d, m_avg_temp = sql_avg (map r_temp g),
                       m_avg_hum = sql_avg (map r_hum g),
                       m_avg_weight = sql_avg (map r_weight g),
                       m_avg_mq = sql_avg (map (\<lambda>r. Some (real_of_int (r_mq r))) g)\<rparr>)
           (take 30 days))"

section \<open>Web server\<close>

datatype http_method = HTTP_GET | HTTP_POST | HTTP_PUT | HTTP_DELETE

record request =
  rq_method :: http_method
  rq_uri :: string
  rq_cookie :: "string option"
  rq_args :: "(string \<times> string) list"

text \<open>
  The three pages are constants in flash (\<^verbatim>\<open>PROGMEM\<close>); their markup is not needed here,
  so each is a name.
\<close>

datatype content = loginPage | dashboardPage | reportPage | Str string

text \<open>
  A response as the handler hands it to the library: the status, the content type
  (\<open>None\<close> for the one-argument \<^verbatim>\<open>server.send(code)\<close>), the headers added with
  \<^verbatim>\<open>server.sendHeader\<close> in the order of the calls, and the content.
\<close>

record response =
  rs_status :: nat
  rs_type :: "string option"
  rs_headers :: "(string \<times> string) list"
  rs_body :: content

definition hasArg :: "request \<Rightarrow> string \<Rightarrow> bool" where
  "hasArg rq name = (name \<in> set (map fst (rq_args rq)))"

definition arg :: "request \<Rightarrow> string \<Rightarrow> string" where
  "arg rq name = (case map_of (rq_args rq) name of None \<Rightarrow> [] | Some v \<Rightarrow> v)"

text \<open>
  What one pass of \<^verbatim>\<open>loop\<close> reads from the outside: the request that
  \<^verbatim>\<open>server.handleClient\<close> serves (if any), every \<^verbatim>\<open>millis()\<close> read in the order of the
  code, the outcome of the SQLite calls, the WiFi status, the sensor reads and the clock.
\<close>

record env =
  e_request :: "request option"
  e_ms_auth1 :: ulong
  e_ms_auth2 :: ulong
  e_ms_login :: ulong
  e_prepare_ok :: bool
  e_step_ok :: bool
  e_ms_sms :: ulong
  e_now :: ulong
  e_wifi_connected :: bool
  e_dht_temperature :: cfloat
  e_dht_humidity :: cfloat
  e_scale_ready :: bool
  e_scale_units :: cfloat
  e_analog :: int
  e_ms_alert1 :: ulong
  e_ms_alert2 :: ulong
  e_local_time :: "string option"
  e_ms_save :: ulong
  e_save_prepare_ok :: bool
  e_save_step_ok :: bool

definition authenticated :: "env \<Rightarrow> request \<Rightarrow> state \<Rightarrow> bool \<times> state" where
  "authenticated e rq s = is_authenticated (e_ms_auth1 e) (e_ms_auth2 e) (rq_cookie rq) s"

definition dq :: string where
  "dq = [CHR 0x22]"

text \<open>\<^verbatim>\<open>snprintf(buf, n, ...)\<close> keeps at most \<open>n - 1\<close> bytes.\<close>

definition snprintf :: "nat \<Rightarrow> string \<Rightarrow> string" where
  "snprintf n x = take (n - 1) x"

text \<open>The rows of a JSON array, a comma before every row but the first.\<close>

fun json_rows :: "string list \<Rightarrow> string" where
  "json_rows [] = []"
| "json_rows (r # rs) = r @ concat (map (\<lambda>x. '','' @ x) rs)"

definition handle_root :: "env \<Rightarrow> request \<Rightarrow> state \<Rightarrow> response \<times> state" where
  "handle_root e rq s =
     (case authenticated e rq s of (ok, s1) \<Rightarrow>
        if ok then
          (\<lparr>rs_status = 303, rs_type = None, rs_headers = [(''Location'', ''/dashboard'')],
            rs_body = Str []\<rparr>, s1)
        else
          (\<lparr>rs_status = 200, rs_type = Some ''text/html'', rs_headers = [],
            rs_body = loginPage\<rparr>, s1))"

definition handle_login :: "env \<Rightarrow> request \<Rightarrow> state \<Rightarrow> response \<times> state" where
  "handle_login e rq s =
     (if hasArg rq ''username'' \<and> hasArg rq ''password''
         \<and> arg rq ''username'' = ''admin'' \<and> arg rq ''password'' = ''admin'' then
        (\<lparr>rs_status = 303, rs_type = None,
          rs_headers = [(''Location'', ''/dashboard''), (''Set-Cookie'', ''ESPSESSIONID=1'')],
          rs_body = Str []\<rparr>,
         s\<lparr>is_logged_in := True, session_expiry := e_ms_login e + SESSION_TIMEOUT\<rparr>)
      else
        (\<lparr>rs_status = 401, rs_type = Some ''text/html'', rs_headers = [],
          rs_body = Str (''Login Failed. <a href='' @ [CHR 0x27] @ ''/'' @ [CHR 0x27]
                         @ ''>Try again</a>'')\<rparr>, s))"

definition handle_logout :: "env \<Rightarrow> request \<Rightarrow> state \<Rightarrow> response \<times> state" where
  "handle_logout e rq s =
     (\<lparr>rs_status = 303, rs_type = None,
       rs_headers = [(''Location'', ''/''), (''Set-Cookie'', ''ESPSESSIONID=0; Max-Age=0'')],
       rs_body = Str []\<rparr>,
      s\<lparr>is_logged_in := False\<rparr>)"

definition handle_dashboard :: "env \<Rightarrow> request \<Rightarrow> state \<Rightarrow> response \<times> state" where
  "handle_dashboard e rq s =
     (case authenticated e rq s of (ok, s1) \<Rightarrow>
        if \<not> ok then
          (\<lparr>rs_status = 303, rs_type = None, rs_headers = [(''Location'', ''/'')],
            rs_body = Str []\<rparr>, s1)
        else
          (\<lparr>rs_status = 200, rs_type = Some ''text/html'',
            rs_headers = [(''Cache-Control'', ''max-age=60'')], rs_body = dashboardPage\<rparr>, s1))"

definition handle_report :: "env \<Rightarrow> request \<Rightarrow> state \<Rightarrow> response \<times> state" where
  "handle_report e rq s =
     (case authenticated e rq s of (ok, s1) \<Rightarrow>
        if \<not> ok then
          (\<lparr>rs_status = 303, rs_type = None, rs_headers = [(''Location'', ''/'')],
            rs_body = Str []\<rparr>, s1)
        else
          (\<lparr>rs_status = 200, rs_type = Some ''text/html'',
            rs_headers = [(''Cache-Control'', ''max-age=60'')], rs_body = reportPage\<rparr>, s1))"

text \<open>The answer of the six JSON and form routes to a request that is not authenticated.\<close>

definition send_303_plain :: response where
  "send_303_plain =
     \<lparr>rs_status = 303, rs_type = Some ''text/plain'', rs_headers = [], rs_body = Str ''/''\<rparr>"

definition send_json :: "string \<Rightarrow> response" where
  "send_json json =
     \<lparr>rs_status = 200, rs_type = Some ''application/json'', rs_headers = [], rs_body = Str json\<rparr>"

definition handle_data :: "corelib \<Rightarrow> env \<Rightarrow> request \<Rightarrow> state \<Rightarrow> response \<times> state" where
  "handle_data L e rq s =
     (case authenticated e rq s of (ok, s1) \<Rightarrow>
        if \<not> ok then (send_303_plain, s1)
        else
          (send_json (snprintf 256
             (''{'' @ dq @ ''temp'' @ dq @ '':'' @ printf_f2 L (temperature s1)
              @ '','' @ dq @ ''hum'' @ dq @ '':'' @ printf_f2 L (humidity s1)
              @ '','' @ dq @ ''weight'' @ dq @ '':'' @ printf_f2 L (weight s1)
              @ '','' @ dq @ ''air'' @ dq @ '':'' @ printf_d L (mq135_raw s1) @ ''}'')), s1))"

definition handle_get_settings :: "corelib \<Rightarrow> env \<Rightarrow> request \<Rightarrow> state \<Rightarrow> response \<times> state" where
  "handle_get_settings L e rq s =
     (case authenticated e rq s of (ok, s1) \<Rightarrow>
        if \<not> ok then (send_303_plain, s1)
        else
          (send_json (snprintf 256
             (''{'' @ dq @ ''phone'' @ dq @ '':'' @ dq @ activePhoneNumber s1 @ dq
              @ '','' @ dq @ ''lt'' @ dq @ '':'' @ printf_f1 L (lim_temp s1)
              @ '','' @ dq @ ''lh'' @ dq @ '':'' @ printf_f1 L (lim_hum s1)
              @ '','' @ dq @ ''lw'' @ dq @ '':'' @ printf_f1 L (lim_weight s1)
              @ '','' @ dq @ ''la'' @ dq @ '':'' @ printf_d L (lim_air s1) @ ''}'')), s1))"

definition handle_save_settings :: "corelib \<Rightarrow> env \<Rightarrow> request \<Rightarrow> state \<Rightarrow> response \<times> state" where
  "handle_save_settings L e rq s =
     (case authenticated e rq s of (ok, s1) \<Rightarrow>
        if \<not> ok then (send_303_plain, s1)
        else if hasArg rq ''phone'' then
          (let s2 = s1\<lparr>activePhoneNumber := arg rq ''phone'',
                       lim_temp := toFloat L (arg rq ''lt''),
                       lim_hum := toFloat L (arg rq ''lh''),
                       lim_weight := toFloat L (arg rq ''lw''),
                       lim_air := toInt L (arg rq ''la'')\<rparr>;
               rs = \<lparr>rs_status = 303, rs_type = None,
                      rs_headers = [(''Location'', ''/dashboard'')], rs_body = Str []\<rparr>
           in if e_prepare_ok e then
                (rs, Serial_println ''Settings Saved to DB''
                   (if e_step_ok e then
                      s2\<lparr>db_settings :=
                           \<lparr>st_phone = activePhoneNumber s2,
                             st_lim_t = bind_double (lim_temp s2),
                             st_lim_h = bind_double (lim_hum s2),
                             st_lim_w = bind_double (lim_weight s2),
                             st_lim_a = lim_air s2\<rparr>\<rparr>
                    else s2))
              else (rs, s2))
        else
          (\<lparr>rs_status = 400, rs_type = Some ''text/plain'', rs_headers = [],
            rs_body = Str ''Bad Request''\<rparr>, s1))"

definition handle_sms :: "env \<Rightarrow> request \<Rightarrow> state \<Rightarrow> response \<times> state" where
  "handle_sms e rq s =
     (case authenticated e rq s of (ok, s1) \<Rightarrow>
        if \<not> ok then (send_303_plain, s1)
        else
          (\<lparr>rs_status = 200, rs_type = Some ''text/plain'', rs_headers = [],
            rs_body = Str ''Queued''\<rparr>,
           triggerSMS (activePhoneNumber s1)
             (''Test Alert from Lebu'' @ [CHR 0x27] @ ''s Farm System.'') s1))"

definition history_row :: "corelib \<Rightarrow> reading_row \<Rightarrow> string" where
  "history_row L r =
     snprintf 150
       (''{'' @ dq @ ''timestamp'' @ dq @ '':'' @ dq @ r_timestamp r @ dq
        @ '','' @ dq @ ''temp'' @ dq @ '':'' @ printf_f2 L (column_double (r_temp r))
        @ '','' @ dq @ ''hum'' @ dq @ '':'' @ printf_f2 L (column_double (r_hum r))
        @ '','' @ dq @ ''weight'' @ dq @ '':'' @ printf_f2 L (column_double (r_weight r))
        @ '','' @ dq @ ''mq'' @ dq @ '':'' @ printf_d L (r_mq r) @ ''}'')"

definition handle_history :: "corelib \<Rightarrow> env \<Rightarrow> request \<Rightarrow> state \<Rightarrow> response \<times> state" where
  "handle_history L e rq s =
     (case authenticated e rq s of (ok, s1) \<Rightarrow>
        if \<not> ok then (send_303_plain, s1)
        else
          (send_json (''['' @ (if e_prepare_ok e
                              then json_rows (map (history_row L) (query_history (db_readings s1)))
                              else []) @ '']''), s1))"

definition monthly_json_row :: "corelib \<Rightarrow> monthly_row \<Rightarrow> string" where
  "monthly_json_row L m =
     snprintf 150
       (''{'' @ dq @ ''day'' @ dq @ '':'' @ dq @ m_day m @ dq
        @ '','' @ dq @ ''avg_temp'' @ dq @ '':'' @ printf_f2 L (column_double (m_avg_temp m))
        @ '','' @ dq @ ''avg_hum'' @ dq @ '':'' @ printf_f2 L (column_double (m_avg_hum m))
        @ '','' @ dq @ ''avg_weight'' @ dq @ '':'' @ printf_f2 L (column_double (m_avg_weight m))
        @ '','' @ dq @ ''avg_mq'' @ dq @ '':'' @ printf_d L (column_int (m_avg_mq m)) @ ''}'')"

definition handle_monthly_data :: "corelib \<Rightarrow> env \<Rightarrow> request \<Rightarrow> state \<Rightarrow> response \<times> state" where
  "handle_monthly_data L e rq s =
     (case authenticated e rq s of (ok, s1) \<Rightarrow>
        if \<not> ok then (send_303_plain, s1)
        else
          (send_json (''['' @ (if e_prepare_ok e
                              then json_rows (map (monthly_json_row L) (query_monthly (db_readings s1)))
                              else []) @ '']''), s1))"

text \<open>
  \<^verbatim>\<open>server.handleClient\<close> with the routes in the order \<^verbatim>\<open>setup\<close> registers them. A
  route registered without a method takes every method. A request that no route takes is
  answered by the library with 404.
\<close>

definition handleClient :: "corelib \<Rightarrow> env \<Rightarrow> state \<Rightarrow> response option \<times> state" where
  "handleClient L e s =
     (case e_request e of
        None \<Rightarrow> (None, s)
      | Some rq \<Rightarrow>
          (case (if rq_uri rq = ''/'' \<and> rq_method rq = HTTP_GET then handle_root e rq s
                 else if rq_uri rq = ''/login'' \<and> rq_method rq = HTTP_POST then handle_login e rq s
                 else if rq_uri rq = ''/logout'' then handle_logout e rq s
                 else if rq_uri rq = ''/dashboard'' then handle_dashboard e rq s
                 else if rq_uri rq = ''/report'' then handle_report e rq s
                 else if rq_uri rq = ''/data'' then handle_data L e rq s
                 else if rq_uri rq = ''/get_settings'' then handle_get_settings L e rq s
                 else if rq_uri rq = ''/save_settings'' \<and> rq_method rq = HTTP_POST
                   then handle_save_settings L e rq s
                 else if rq_uri rq = ''/sms'' \<and> rq_method rq = HTTP_POST then handle_sms e rq s
                 else if rq_uri rq = ''/history'' then handle_history L e rq s
                 else if rq_uri rq = ''/monthly_data'' then handle_monthly_data L e rq s
                 else (\<lparr>rs_status = 404, rs_type = Some ''text/plain'', rs_headers = [],
                        rs_body = Str (''Not found: '' @ rq_uri rq)\<rparr>, s))
           of (rs, s1) \<Rightarrow> (Some rs, s1)))"

section \<open>The loop\<close>

text \<open>The WiFi watchdog of \<^verbatim>\<open>loop\<close>.\<close>

definition loop_wifi :: "env \<Rightarrow> state \<Rightarrow> state" where
  "loop_wifi e s =
     (if e_now e - lastWifiCheck s > 10000 then
        (let s1 = s\<lparr>lastWifiCheck := e_now e\<rparr>
         in if \<not> e_wifi_connected e then Serial_println ''WiFi Lost - Reconnecting...'' s1 else s1)
      else s)"

text \<open>The four sensor reads of \<^verbatim>\<open>loop\<close>, each with its guard.\<close>

definition read_sensors :: "env \<Rightarrow> state \<Rightarrow> state" where
  "read_sensors e s =
     (let t = e_dht_temperature e;
          h = e_dht_humidity e;
          s1 = (if \<not> isnan t then s\<lparr>temperature := t\<rparr> else s);
          s2 = (if \<not> isnan h then s1\<lparr>humidity := h\<rparr> else s1);
          s3 = (if e_scale_ready e then s2\<lparr>weight := e_scale_units e\<rparr> else s2)
      in s3\<lparr>mq135_raw := e_analog e\<rparr>)"

text \<open>The block \<^verbatim>\<open>Sensors & LCD\<close> of \<^verbatim>\<open>loop\<close>.\<close>

definition loop_sensors :: "corelib \<Rightarrow> env \<Rightarrow> state \<Rightarrow> state" where
  "loop_sensors L e s =
     (if e_now e - lastSensorMillis s \<ge> SENSOR_INTERVAL then
        checkAlerts L (e_ms_alert1 e) (e_ms_alert2 e)
          (read_sensors e (s\<lparr>lastSensorMillis := e_now e\<rparr>))
      else s)"

text \<open>The block \<^verbatim>\<open>Database Save\<close> of \<^verbatim>\<open>loop\<close>.\<close>

definition loop_db :: "corelib \<Rightarrow> env \<Rightarrow> state \<Rightarrow> state" where
  "loop_db L e s =
     (if e_now e - lastDbMillis s \<ge> DB_SAVE_INTERVAL then
        (if currentSmsState s = SMS_IDLE then
           saveToDatabase L (e_local_time e) (e_ms_save e) (e_save_prepare_ok e) (e_save_step_ok e)
             (s\<lparr>lastDbMillis := e_now e\<rparr>)
         else s)
      else s)"

text \<open>The state in which \<^verbatim>\<open>loop\<close> reaches its database block.\<close>

definition loop_before_db :: "corelib \<Rightarrow> env \<Rightarrow> state \<Rightarrow> state" where
  "loop_before_db L e s =
     loop_sensors L e (loop_wifi e (manageSMS (e_ms_sms e) (snd (handleClient L e s))))"

definition loop :: "corelib \<Rightarrow> env \<Rightarrow> state \<Rightarrow> state" where
  "loop L e s = loop_db L e (loop_before_db L e s)"

text \<open>Any number of passes, one environment each.\<close>

fun run :: "corelib \<Rightarrow> env list \<Rightarrow> state \<Rightarrow> state" where
  "run L [] s = s"
| "run L (e # es) s = run L es (loop L e s)"

section \<open>Predicates used in the statements\<close>

text \<open>
  The variables that neither the web server nor the dispatcher nor the WiFi watchdog
  writes: the readings, the sampling, saving and cooldown timers, and the readings table.
\<close>

definition same_readings :: "state \<Rightarrow> state \<Rightarrow> bool" where
  "same_readings s s' =
     (temperature s' = temperature s \<and> humidity s' = humidity s \<and> weight s' = weight s
      \<and> mq135_raw s' = mq135_raw s \<and> lastSensorMillis s' = lastSensorMillis s
      \<and> lastDbMillis s' = lastDbMillis s \<and> lastSmsCooldown s' = lastSmsCooldown s
      \<and> db_readings s' = db_readings s)"

text \<open>The pass serves no request for the route \<^verbatim>\<open>/sms\<close>.\<close>

definition no_sms_request :: "env \<Rightarrow> bool" where
  "no_sms_request e = (case e_request e of None \<Rightarrow> True | Some rq \<Rightarrow> rq_uri rq \<noteq> ''/sms'')"

text \<open>The variables of the dispatcher and the modem line.\<close>

definition same_dispatcher :: "state \<Rightarrow> state \<Rightarrow> bool" where
  "same_dispatcher s s' =
     (currentSmsState s' = currentSmsState s \<and> smsTimer s' = smsTimer s
      \<and> smsQueueNum s' = smsQueueNum s \<and> smsQueueMsg s' = smsQueueMsg s
      \<and> sim800_tx s' = sim800_tx s \<and> sim800_rx s' = sim800_rx s)"

section \<open>Sample inputs\<close>

text \<open>
  A formatting library and an environment for the worked examples: the library prints
  the few numbers the examples use, the environment is a pass with no request, no WiFi
  loss, failed sensor reads and a working database.
\<close>

definition sample_f1 :: "cfloat \<Rightarrow> string" where
  "sample_f1 x =
     (case x of NaN \<Rightarrow> ''nan''
      | Finite r \<Rightarrow> (if r = 42 then ''42.0'' else if r = 40 then ''40.0'' else ''0.0''))"

definition sample_lib :: corelib where
  "sample_lib =
     \<lparr>String_f1 = sample_f1, String_d = (\<lambda>n. ''0''),
      printf_f1 = sample_f1, printf_f2 = (\<lambda>x. sample_f1 x @ ''0''), printf_d = (\<lambda>n. ''0''),
      printf_02lu = (\<lambda>n. ''00''), toFloat = (\<lambda>x. Finite 0), toInt = (\<lambda>x. 0)\<rparr>"

definition sample_env :: env where
  "sample_env =
     \<lparr>e_request = None, e_ms_auth1 = 0, e_ms_auth2 = 0, e_ms_login = 0,
      e_prepare_ok = True, e_step_ok = True, e_ms_sms = 0, e_now = 0,
      e_wifi_connected = True, e_dht_temperature = NaN, e_dht_humidity = NaN,
      e_scale_ready = False, e_scale_units = Finite 0, e_analog = 0,
      e_ms_alert1 = 0, e_ms_alert2 = 0, e_local_time = None, e_ms_save = 0,
      e_save_prepare_ok = True, e_save_step_ok = True\<rparr>"

text \<open>
  A readings table for the worked example: two readings on one day, one on the next,
  and one saved while the clock was not available.
\<close>

definition sample_rows :: "reading_row list" where
  "sample_rows =
     [\<lparr>r_timestamp = ''2024-05-01 10:00:00'', r_temp = Some 20, r_hum = Some 50,
       r_weight = Some 10, r_mq = 100\<rparr>,
      \<lparr>r_timestamp = ''Offline-12'', r_temp = Some 99, r_hum = Some 99,
       r_weight = Some 99, r_mq = 999\<rparr>,
      \<lparr>r_timestamp = ''2024-05-02 10:00:00'', r_temp = Some 30, r_hum = Some 60,
       r_weight = Some 12, r_mq = 200\<rparr>,
      \<lparr>r_timestamp = ''2024-05-01 11:00:00'', r_temp = Some 22, r_hum = Some 52,
       r_weight = Some 11, r_mq = 101\<rparr>]"

text \<open>Every pass of the list reaches its database block with the dispatcher not idle.\<close>

fun all_skipped :: "corelib \<Rightarrow> env list \<Rightarrow> state \<Rightarrow> bool" where
  "all_skipped L [] s = True"
| "all_skipped L (e # es) s =
     (currentSmsState (loop_before_db L e s) \<noteq> SMS_IDLE \<and> all_skipped L es (loop L e s))"

section \<open>The cookie a logged-in browser presents\<close>

text \<open>
  This definition follows the words of the specification, not the code. \<^verbatim>\<open>/login\<close>
  sets the cookie \<^verbatim>\<open>ESPSESSIONID=1\<close>. A request presents that cookie value when its
  \<^verbatim>\<open>Cookie\<close> header, cut at every \<^verbatim>\<open>;\<close> and with the blanks in front of each piece
  dropped, has a piece that is exactly \<^verbatim>\<open>ESPSESSIONID=1\<close>.
\<close>

fun split_semicolon :: "string \<Rightarrow> string list" where
  "split_semicolon [] = [[]]"
| "split_semicolon (c # cs) =
     (if c = CHR '';'' then [] # split_semicolon cs
      else (case split_semicolon cs of [] \<Rightarrow> [[c]] | x # xs \<Rightarrow> (c # x) # xs))"

definition cookie_pairs :: "string \<Rightarrow> string list" where
  "cookie_pairs c = map (dropWhile (\<lambda>x. x = CHR '' '')) (split_semicolon c)"

definition presents_session_marker :: "string \<Rightarrow> bool" where
  "presents_session_marker c = (''ESPSESSIONID=1'' \<in> set (cookie_pairs c))"

section \<open>The dispatcher holds one job\<close>

lemma manageSMS_queue:
  "smsQueueNum (manageSMS now s) = smsQueueNum s \<and> smsQueueMsg (manageSMS now s) = smsQueueMsg s"
  by (cases "currentSmsState s")
     (simp_all add: manageSMS_def SIM800_println_def SIM800_print_def SIM800_write_def
        Serial_println_def)

text \<open>
  C2. A \<^verbatim>\<open>triggerSMS\<close> call made while the dispatcher is in any state other than
  \<open>SMS_IDLE\<close> returns the whole state unchanged: dispatcher state, queued recipient,
  queued body, and also the console, so the job is dropped silently. A tick of
  \<^verbatim>\<open>manageSMS\<close> never writes the queue slot either, and the slot is written by
  \<^verbatim>\<open>triggerSMS\<close> only in \<open>SMS_IDLE\<close>: the accepted job stays in the slot until the
  dispatcher is back in \<open>SMS_IDLE\<close>.
\<close>

theorem triggerSMS_dropped_while_busy:
  "(currentSmsState s \<noteq> SMS_IDLE \<longrightarrow> triggerSMS number message s = s)
   \<and> smsQueueNum (manageSMS now s) = smsQueueNum s
   \<and> smsQueueMsg (manageSMS now s) = smsQueueMsg s
   \<and> (currentSmsState s = SMS_IDLE \<longrightarrow>
        currentSmsState (triggerSMS number message s) = SMS_MODE
        \<and> smsQueueNum (triggerSMS number message s) = number
        \<and> smsQueueMsg (triggerSMS number message s) = message)"
  using manageSMS_queue [of now s]
  by (simp add: triggerSMS_def Serial_println_def)

theorem triggerSMS_dropped_while_busy_witness:
  "currentSmsState (boot\<lparr>currentSmsState := SMS_WAIT, smsQueueNum := ''+254700000000'',
       smsQueueMsg := ''first''\<rparr>) \<noteq> SMS_IDLE
   \<and> triggerSMS ''+254711111111'' ''second''
        (boot\<lparr>currentSmsState := SMS_WAIT, smsQueueNum := ''+254700000000'',
           smsQueueMsg := ''first''\<rparr>)
      = boot\<lparr>currentSmsState := SMS_WAIT, smsQueueNum := ''+254700000000'',
           smsQueueMsg := ''first''\<rparr>
   \<and> currentSmsState boot = SMS_IDLE
   \<and> smsQueueMsg (triggerSMS ''+254711111111'' ''second'' boot) = ''second''"
  using triggerSMS_dropped_while_busy
    [of "boot\<lparr>currentSmsState := SMS_WAIT, smsQueueNum := ''+254700000000'',
           smsQueueMsg := ''first''\<rparr>" "''+254711111111''" "''second''" 0]
    triggerSMS_dropped_while_busy [of boot "''+254711111111''" "''second''" 0]
  by (simp add: boot_def)

section \<open>The dispatcher's transitions\<close>

lemma manageSMS_IDLE: "currentSmsState s = SMS_IDLE \<Longrightarrow> manageSMS now s = s"
  by (simp add: manageSMS_def)

lemma manageSMS_MODE:
  "currentSmsState s = SMS_MODE \<Longrightarrow>
   manageSMS now s =
     s\<lparr>sim800_tx := sim800_tx s @ ''AT+CMGF=1'' @ crlf, smsTimer := now,
       currentSmsState := SMS_NUMBER\<rparr>"
  by (simp add: manageSMS_def SIM800_println_def)

lemma manageSMS_NUMBER:
  "currentSmsState s = SMS_NUMBER \<Longrightarrow>
   manageSMS now s =
     (if 200 < now - smsTimer s then
        s\<lparr>sim800_tx := sim800_tx s @ ''AT+CMGS='' @ [CHR 0x22] @ smsQueueNum s @ [CHR 0x22] @ crlf,
          smsTimer := now, currentSmsState := SMS_CONTENT\<rparr>
      else s)"
  by (simp add: manageSMS_def SIM800_println_def SIM800_print_def)

lemma manageSMS_CONTENT:
  "currentSmsState s = SMS_CONTENT \<Longrightarrow>
   manageSMS now s =
     (if 200 < now - smsTimer s then
        s\<lparr>sim800_tx := sim800_tx s @ smsQueueMsg s @ [CHR 0x1A],
          smsTimer := now, currentSmsState := SMS_WAIT\<rparr>
      else s)"
  by (simp add: manageSMS_def SIM800_write_def SIM800_print_def)

lemma manageSMS_WAIT:
  "currentSmsState s = SMS_WAIT \<Longrightarrow>
   manageSMS now s =
     (if 3000 < now - smsTimer s then
        s\<lparr>currentSmsState := SMS_IDLE, serial_log := serial_log s @ [''SMS Processed'']\<rparr>
      else s)"
  by (simp add: manageSMS_def Serial_println_def)

lemma manageSMS_ignores_rx:
  "manageSMS now (s\<lparr>sim800_rx := r\<rparr>) = (manageSMS now s)\<lparr>sim800_rx := r\<rparr>"
  by (cases "currentSmsState s")
     (simp_all add: manageSMS_def SIM800_println_def SIM800_print_def SIM800_write_def
        Serial_println_def)

lemma manageSMS_next_step:
  "currentSmsState (manageSMS now s) = currentSmsState s
   \<or> currentSmsState (manageSMS now s) = next_step (currentSmsState s)"
  by (cases "currentSmsState s")
     (simp_all add: manageSMS_def SIM800_println_def SIM800_print_def SIM800_write_def
        Serial_println_def)

text \<open>One pass of \<^verbatim>\<open>loop\<close> calls \<^verbatim>\<open>manageSMS\<close> once.\<close>

lemma loop_once:
  "loop L e s
     = loop_db L e (loop_sensors L e (loop_wifi e
         (manageSMS (e_ms_sms e) (snd (handleClient L e s)))))"
  by (simp add: loop_def loop_before_db_def)

text \<open>Four ticks that are far enough apart carry an accepted job to the end.\<close>

lemma manageSMS_end_to_end:
  assumes idle: "currentSmsState s = SMS_IDLE"
    and d1: "200 < t1 - t0" and d2: "200 < t2 - t1" and d3: "3000 < t3 - t2"
  shows "manageSMS t3 (manageSMS t2 (manageSMS t1 (manageSMS t0 (triggerSMS number message s))))
         = s\<lparr>smsQueueNum := number, smsQueueMsg := message, smsTimer := t2,
              currentSmsState := SMS_IDLE,
              sim800_tx := sim800_tx s @ ''AT+CMGF=1'' @ crlf
                 @ ''AT+CMGS='' @ [CHR 0x22] @ number @ [CHR 0x22] @ crlf
                 @ message @ [CHR 0x1A],
              serial_log := serial_log s @ [''SMS Queued'', ''SMS Processed'']\<rparr>"
proof -
  let ?s0 = "triggerSMS number message s"
  have s0: "?s0 = s\<lparr>smsQueueNum := number, smsQueueMsg := message,
      currentSmsState := SMS_MODE, serial_log := serial_log s @ [''SMS Queued'']\<rparr>"
    using idle by (simp add: triggerSMS_def Serial_println_def)
  let ?s1 = "manageSMS t0 ?s0"
  have s1: "?s1 = s\<lparr>smsQueueNum := number, smsQueueMsg := message,
      currentSmsState := SMS_NUMBER, smsTimer := t0,
      sim800_tx := sim800_tx s @ ''AT+CMGF=1'' @ crlf,
      serial_log := serial_log s @ [''SMS Queued'']\<rparr>"
    by (simp add: s0 manageSMS_MODE)
  let ?s2 = "manageSMS t1 ?s1"
  have s2: "?s2 = s\<lparr>smsQueueNum := number, smsQueueMsg := message,
      currentSmsState := SMS_CONTENT, smsTimer := t1,
      sim800_tx := sim800_tx s @ ''AT+CMGF=1'' @ crlf
         @ ''AT+CMGS='' @ [CHR 0x22] @ number @ [CHR 0x22] @ crlf,
      serial_log := serial_log s @ [''SMS Queued'']\<rparr>"
    using d1 by (simp add: s1 manageSMS_NUMBER)
  let ?s3 = "manageSMS t2 ?s2"
  have s3: "?s3 = s\<lparr>smsQueueNum := number, smsQueueMsg := message,
      currentSmsState := SMS_WAIT, smsTimer := t2,
      sim800_tx := sim800_tx s @ ''AT+CMGF=1'' @ crlf
         @ ''AT+CMGS='' @ [CHR 0x22] @ number @ [CHR 0x22] @ crlf
         @ message @ [CHR 0x1A],
      serial_log := serial_log s @ [''SMS Queued'']\<rparr>"
    using d2 by (simp add: s2 manageSMS_CONTENT)
  show ?thesis
    using d3 by (simp add: s3 manageSMS_WAIT)
qed

text \<open>
  C3, as the claim states it, is false at the boundaries: the tests of \<^verbatim>\<open>manageSMS\<close>
  are strict (\<^verbatim>\<open>now - smsTimer > 200\<close>, \<^verbatim>\<open>> 3000\<close>). With exactly 200 ms elapsed the
  states \<open>SMS_NUMBER\<close> and \<open>SMS_CONTENT\<close> do not fire, and with exactly 3000 ms elapsed
  \<open>SMS_WAIT\<close> does not return to \<open>SMS_IDLE\<close>.
\<close>

theorem manageSMS_boundary_counterexample:
  "\<not> ((200::ulong) \<le> 1200 - smsTimer (boot\<lparr>currentSmsState := SMS_NUMBER, smsTimer := 1000\<rparr>)
       \<longrightarrow> currentSmsState (manageSMS 1200 (boot\<lparr>currentSmsState := SMS_NUMBER, smsTimer := 1000\<rparr>))
           = SMS_CONTENT)
   \<and> \<not> ((200::ulong) \<le> 1200 - smsTimer (boot\<lparr>currentSmsState := SMS_CONTENT, smsTimer := 1000\<rparr>)
       \<longrightarrow> currentSmsState (manageSMS 1200 (boot\<lparr>currentSmsState := SMS_CONTENT, smsTimer := 1000\<rparr>))
           = SMS_WAIT)
   \<and> \<not> ((3000::ulong) \<le> 4000 - smsTimer (boot\<lparr>currentSmsState := SMS_WAIT, smsTimer := 1000\<rparr>)
       \<longrightarrow> currentSmsState (manageSMS 4000 (boot\<lparr>currentSmsState := SMS_WAIT, smsTimer := 1000\<rparr>))
           = SMS_IDLE)"
  by (simp add: manageSMS_def boot_def)

text \<open>
  C3, amended. One call of \<^verbatim>\<open>manageSMS\<close> (one per tick) does this, \<open>now - smsTimer\<close>
  being the elapsed time in 32-bit unsigned arithmetic:
  \<open>SMS_IDLE\<close> does nothing;
  \<open>SMS_MODE\<close> emits \<^verbatim>\<open>AT+CMGF=1\<close>, stamps the timer and advances to \<open>SMS_NUMBER\<close> at once;
  \<open>SMS_NUMBER\<close> fires when more than 200 ms have elapsed: it emits \<^verbatim>\<open>AT+CMGS="<number>"\<close>,
  restamps the timer and advances to \<open>SMS_CONTENT\<close>, and otherwise changes nothing;
  \<open>SMS_CONTENT\<close> fires when more than 200 ms have elapsed: it emits the body followed by the
  byte 26, restamps the timer and advances to \<open>SMS_WAIT\<close>, and otherwise changes nothing;
  \<open>SMS_WAIT\<close> returns to \<open>SMS_IDLE\<close> when more than 3000 ms have elapsed, whatever the modem
  has answered, and otherwise changes nothing.
  So a call either keeps the dispatcher state or moves it one step along
  IDLE, MODE, NUMBER, CONTENT, WAIT, IDLE; the result never depends on the modem's
  receive buffer; a pass of \<^verbatim>\<open>loop\<close> makes one such call; and an accepted job followed by four ticks that are far enough apart
  is back in \<open>SMS_IDLE\<close> with the whole dialogue sent.
\<close>

theorem manageSMS_steps:
  "(currentSmsState s = SMS_IDLE \<longrightarrow> manageSMS now s = s)
   \<and> (currentSmsState s = SMS_MODE \<longrightarrow>
        manageSMS now s =
          s\<lparr>sim800_tx := sim800_tx s @ ''AT+CMGF=1'' @ crlf, smsTimer := now,
            currentSmsState := SMS_NUMBER\<rparr>)
   \<and> (currentSmsState s = SMS_NUMBER \<longrightarrow>
        manageSMS now s =
          (if 200 < now - smsTimer s then
             s\<lparr>sim800_tx := sim800_tx s @ ''AT+CMGS='' @ [CHR 0x22] @ smsQueueNum s
                   @ [CHR 0x22] @ crlf,
               smsTimer := now, currentSmsState := SMS_CONTENT\<rparr>
           else s))
   \<and> (currentSmsState s = SMS_CONTENT \<longrightarrow>
        manageSMS now s =
          (if 200 < now - smsTimer s then
             s\<lparr>sim800_tx := sim800_tx s @ smsQueueMsg s @ [CHR 0x1A],
               smsTimer := now, currentSmsState := SMS_WAIT\<rparr>
           else s))
   \<and> (currentSmsState s = SMS_WAIT \<longrightarrow>
        manageSMS now s =
          (if 3000 < now - smsTimer s then
             s\<lparr>currentSmsState := SMS_IDLE, serial_log := serial_log s @ [''SMS Processed'']\<rparr>
           else s))
   \<and> (currentSmsState (manageSMS now s) = currentSmsState s
        \<or> currentSmsState (manageSMS now s) = next_step (currentSmsState s))
   \<and> manageSMS now (s\<lparr>sim800_rx := r\<rparr>) = (manageSMS now s)\<lparr>sim800_rx := r\<rparr>
   \<and> loop L e s
       = loop_db L e (loop_sensors L e (loop_wifi e
           (manageSMS (e_ms_sms e) (snd (handleClient L e s)))))
   \<and> (currentSmsState s = SMS_IDLE \<and> 200 < t1 - t0 \<and> 200 < t2 - t1 \<and> 3000 < t3 - t2 \<longrightarrow>
        manageSMS t3 (manageSMS t2 (manageSMS t1 (manageSMS t0 (triggerSMS number message s))))
        = s\<lparr>smsQueueNum := number, smsQueueMsg := message, smsTimer := t2,
             currentSmsState := SMS_IDLE,
             sim800_tx := sim800_tx s @ ''AT+CMGF=1'' @ crlf
                @ ''AT+CMGS='' @ [CHR 0x22] @ number @ [CHR 0x22] @ crlf
                @ message @ [CHR 0x1A],
             serial_log := serial_log s @ [''SMS Queued'', ''SMS Processed'']\<rparr>)"
  using manageSMS_IDLE [of s now] manageSMS_MODE [of s now] manageSMS_NUMBER [of s now]
    manageSMS_CONTENT [of s now] manageSMS_WAIT [of s now] manageSMS_next_step [of now s]
    manageSMS_ignores_rx [where now = now and s = s and r = r]
    loop_once [of L e s]
    manageSMS_end_to_end [where s = s and ?t0.0 = t0 and ?t1.0 = t1 and ?t2.0 = t2 and ?t3.0 = t3
      and number = number and message = message]
  by blast

theorem manageSMS_steps_witness:
  "currentSmsState boot = SMS_IDLE \<and> manageSMS 7 boot = boot
   \<and> currentSmsState (boot\<lparr>currentSmsState := SMS_MODE\<rparr>) = SMS_MODE
   \<and> currentSmsState (manageSMS 1000 (boot\<lparr>currentSmsState := SMS_MODE\<rparr>)) = SMS_NUMBER
   \<and> currentSmsState (boot\<lparr>currentSmsState := SMS_NUMBER, smsTimer := 1000\<rparr>) = SMS_NUMBER
   \<and> currentSmsState (manageSMS 1201 (boot\<lparr>currentSmsState := SMS_NUMBER, smsTimer := 1000\<rparr>))
       = SMS_CONTENT
   \<and> currentSmsState (boot\<lparr>currentSmsState := SMS_CONTENT, smsTimer := 1201,
          smsQueueMsg := ''Test''\<rparr>) = SMS_CONTENT
   \<and> sim800_tx (manageSMS 1402 (boot\<lparr>currentSmsState := SMS_CONTENT, smsTimer := 1201,
          smsQueueMsg := ''Test''\<rparr>)) = ''Test'' @ [CHR 0x1A]
   \<and> currentSmsState (boot\<lparr>currentSmsState := SMS_WAIT, smsTimer := 1402\<rparr>) = SMS_WAIT
   \<and> currentSmsState (manageSMS 4403 (boot\<lparr>currentSmsState := SMS_WAIT, smsTimer := 1402\<rparr>))
       = SMS_IDLE
   \<and> (200::ulong) < 1201 - 1000 \<and> (200::ulong) < 1402 - 1201 \<and> (3000::ulong) < 4403 - 1402
   \<and> sim800_tx (manageSMS 4403 (manageSMS 1402 (manageSMS 1201 (manageSMS 1000
         (triggerSMS ''+254700000000'' ''Test'' boot)))))
       = ''AT+CMGF=1'' @ crlf @ ''AT+CMGS='' @ [CHR 0x22] @ ''+254700000000'' @ [CHR 0x22] @ crlf
         @ ''Test'' @ [CHR 0x1A]"
proof -
  have i: "currentSmsState boot = SMS_IDLE" by (simp add: boot_def)
  have m: "currentSmsState (boot\<lparr>currentSmsState := SMS_MODE\<rparr>) = SMS_MODE" by simp
  have n: "currentSmsState (boot\<lparr>currentSmsState := SMS_NUMBER, smsTimer := 1000\<rparr>) = SMS_NUMBER"
    by simp
  have c: "currentSmsState (boot\<lparr>currentSmsState := SMS_CONTENT, smsTimer := 1201,
          smsQueueMsg := ''Test''\<rparr>) = SMS_CONTENT" by simp
  have w: "currentSmsState (boot\<lparr>currentSmsState := SMS_WAIT, smsTimer := 1402\<rparr>) = SMS_WAIT"
    by simp
  have d: "(200::ulong) < 1201 - 1000" "(200::ulong) < 1402 - 1201" "(3000::ulong) < 4403 - 1402"
    by simp_all
  note S = manageSMS_steps
  have 1: "manageSMS 7 boot = boot"
    using S [THEN conjunct1, rule_format, OF i] .
  have 2: "currentSmsState (manageSMS 1000 (boot\<lparr>currentSmsState := SMS_MODE\<rparr>)) = SMS_NUMBER"
    by (simp add: S [THEN conjunct2, THEN conjunct1, rule_format, OF m])
  have 3: "currentSmsState (manageSMS 1201 (boot\<lparr>currentSmsState := SMS_NUMBER, smsTimer := 1000\<rparr>))
       = SMS_CONTENT"
    by (simp add: S [THEN conjunct2, THEN conjunct2, THEN conjunct1, rule_format, OF n])
  have 4: "sim800_tx (manageSMS 1402 (boot\<lparr>currentSmsState := SMS_CONTENT, smsTimer := 1201,
          smsQueueMsg := ''Test''\<rparr>)) = ''Test'' @ [CHR 0x1A]"
    unfolding S [THEN conjunct2, THEN conjunct2, THEN conjunct2, THEN conjunct1, rule_format, OF c]
    by (simp add: boot_def)
  have 5: "currentSmsState (manageSMS 4403 (boot\<lparr>currentSmsState := SMS_WAIT, smsTimer := 1402\<rparr>))
       = SMS_IDLE"
    by (simp add: S [THEN conjunct2, THEN conjunct2, THEN conjunct2, THEN conjunct2, THEN conjunct1,
          rule_format, OF w])
  have 6: "sim800_tx (manageSMS 4403 (manageSMS 1402 (manageSMS 1201 (manageSMS 1000
         (triggerSMS ''+254700000000'' ''Test'' boot)))))
       = ''AT+CMGF=1'' @ crlf @ ''AT+CMGS='' @ [CHR 0x22] @ ''+254700000000'' @ [CHR 0x22] @ crlf
         @ ''Test'' @ [CHR 0x1A]"
    unfolding S [THEN conjunct2, THEN conjunct2, THEN conjunct2, THEN conjunct2, THEN conjunct2,
          THEN conjunct2, THEN conjunct2, THEN conjunct2, rule_format,
          OF conjI [OF i conjI [OF d(1) conjI [OF d(2) d(3)]]]]
    by (simp add: boot_def)
  show ?thesis
    using i m n c w d 1 2 3 4 5 6 by blast
qed

section \<open>What the web server and the dispatcher leave alone\<close>

lemma same_readings_refl: "same_readings s s"
  by (simp add: same_readings_def)

lemma same_readings_trans: "same_readings a b \<Longrightarrow> same_readings b c \<Longrightarrow> same_readings a c"
  by (simp add: same_readings_def)

lemma triggerSMS_same: "same_readings s (triggerSMS n m s)"
  by (simp add: same_readings_def triggerSMS_def Serial_println_def)

lemma manageSMS_same: "same_readings s (manageSMS now s)"
  by (cases "currentSmsState s")
     (simp_all add: same_readings_def manageSMS_def SIM800_println_def SIM800_print_def
        SIM800_write_def Serial_println_def)

lemma is_authenticated_same: "same_readings s (snd (is_authenticated m1 m2 c s))"
  by (simp add: same_readings_def is_authenticated_def split: option.splits)

lemma authenticated_same: "authenticated e rq s = (ok, s1) \<Longrightarrow> same_readings s s1"
  using is_authenticated_same [of s "e_ms_auth1 e" "e_ms_auth2 e" "rq_cookie rq"]
  by (simp add: authenticated_def)

lemma handle_root_same: "same_readings s (snd (handle_root e rq s))"
  by (auto simp: handle_root_def dest: authenticated_same split: prod.splits)

lemma handle_login_same: "same_readings s (snd (handle_login e rq s))"
  by (simp add: handle_login_def same_readings_def)

lemma handle_logout_same: "same_readings s (snd (handle_logout e rq s))"
  by (simp add: handle_logout_def same_readings_def)

lemma handle_dashboard_same: "same_readings s (snd (handle_dashboard e rq s))"
  by (auto simp: handle_dashboard_def dest: authenticated_same split: prod.splits)

lemma handle_report_same: "same_readings s (snd (handle_report e rq s))"
  by (auto simp: handle_report_def dest: authenticated_same split: prod.splits)

lemma handle_data_same: "same_readings s (snd (handle_data L e rq s))"
  by (auto simp: handle_data_def dest: authenticated_same split: prod.splits)

lemma handle_get_settings_same: "same_readings s (snd (handle_get_settings L e rq s))"
  by (auto simp: handle_get_settings_def dest: authenticated_same split: prod.splits)

lemma handle_save_settings_same: "same_readings s (snd (handle_save_settings L e rq s))"
proof (cases "authenticated e rq s")
  case (Pair ok s1)
  then have "same_readings s s1" by (rule authenticated_same)
  then show ?thesis
    using Pair by (simp add: handle_save_settings_def same_readings_def Serial_println_def Let_def)
qed

lemma handle_sms_same: "same_readings s (snd (handle_sms e rq s))"
proof (cases "authenticated e rq s")
  case (Pair ok s1)
  then have "same_readings s s1" by (rule authenticated_same)
  then show ?thesis
    using Pair triggerSMS_same [of s1] by (auto simp: handle_sms_def intro: same_readings_trans)
qed

lemma handle_history_same: "same_readings s (snd (handle_history L e rq s))"
  by (auto simp: handle_history_def dest: authenticated_same split: prod.splits)

lemma handle_monthly_data_same: "same_readings s (snd (handle_monthly_data L e rq s))"
  by (auto simp: handle_monthly_data_def dest: authenticated_same split: prod.splits)

lemma handleClient_same: "same_readings s (snd (handleClient L e s))"
proof (cases "e_request e")
  case None
  then show ?thesis by (simp add: handleClient_def same_readings_refl)
next
  case (Some rq)
  then show ?thesis
    using handle_root_same [of s e rq] handle_login_same [of s e rq] handle_logout_same [of s e rq]
      handle_dashboard_same [of s e rq] handle_report_same [of s e rq]
      handle_data_same [of s L e rq] handle_get_settings_same [of s L e rq]
      handle_save_settings_same [of s L e rq] handle_sms_same [of s e rq]
      handle_history_same [of s L e rq] handle_monthly_data_same [of s L e rq]
    by (simp add: handleClient_def case_prod_beta same_readings_refl)
qed

lemma loop_wifi_same: "same_readings s (loop_wifi e s)"
  by (simp add: loop_wifi_def same_readings_def Serial_println_def Let_def)

section \<open>The alert cooldown\<close>

lemma millis_elapsed:
  assumes "t1 \<le> t2" and "t2 - t1 < 2 ^ 32"
  shows "unat (millis t2 - millis t1) = t2 - t1"
proof -
  have "millis t2 - millis t1 = (of_nat (t2 - t1) :: ulong)"
    using assms(1) by (simp add: millis_def of_nat_diff)
  then show ?thesis
    using assms(2) by (simp add: unat_of_nat)
qed

lemma millis_in_cooldown:
  assumes "t1 \<le> t2" and "t2 - t1 < 300000"
  shows "millis t2 - millis t1 < SMS_COOLDOWN"
proof -
  have "unat (millis t2 - millis t1) = t2 - t1"
    using assms by (intro millis_elapsed) simp_all
  then show ?thesis
    using assms(2) by (simp add: word_less_nat_alt SMS_COOLDOWN_def)
qed

lemma checkAlerts_blocked:
  "m1 - lastSmsCooldown s < SMS_COOLDOWN \<Longrightarrow> checkAlerts L m1 m2 s = s"
  by (simp add: checkAlerts_def)

lemma checkAlerts_raise:
  "\<not> m1 - lastSmsCooldown s < SMS_COOLDOWN \<Longrightarrow> alertMessage L s = Some msg \<Longrightarrow>
   checkAlerts L m1 m2 s = (triggerSMS (activePhoneNumber s) msg s)\<lparr>lastSmsCooldown := m2\<rparr>"
  by (simp add: checkAlerts_def)

lemma read_sensors_lastSmsCooldown: "lastSmsCooldown (read_sensors e s) = lastSmsCooldown s"
  by (simp add: read_sensors_def Let_def)

lemma loop_sensors_blocked:
  "e_ms_alert1 e - lastSmsCooldown s < SMS_COOLDOWN \<Longrightarrow>
   loop_sensors L e s =
     (if e_now e - lastSensorMillis s \<ge> SENSOR_INTERVAL
      then read_sensors e (s\<lparr>lastSensorMillis := e_now e\<rparr>) else s)"
  by (simp add: loop_sensors_def checkAlerts_blocked read_sensors_lastSmsCooldown)

lemma saveToDatabase_lastSmsCooldown:
  "lastSmsCooldown (saveToDatabase L lt ms p st s) = lastSmsCooldown s"
  by (simp add: saveToDatabase_def Serial_println_def Let_def)

lemma loop_db_lastSmsCooldown: "lastSmsCooldown (loop_db L e s) = lastSmsCooldown s"
  by (simp add: loop_db_def saveToDatabase_lastSmsCooldown)

lemma before_sensors_lastSmsCooldown:
  "lastSmsCooldown (loop_wifi e (manageSMS now (snd (handleClient L e s)))) = lastSmsCooldown s"
  using handleClient_same [of s L e] manageSMS_same [of "snd (handleClient L e s)" now]
    loop_wifi_same [of "manageSMS now (snd (handleClient L e s))" e]
  by (simp add: same_readings_def)

lemma loop_lastSmsCooldown_blocked:
  assumes "e_ms_alert1 e - lastSmsCooldown s < SMS_COOLDOWN"
  shows "lastSmsCooldown (loop L e s) = lastSmsCooldown s"
proof -
  let ?p = "loop_wifi e (manageSMS (e_ms_sms e) (snd (handleClient L e s)))"
  have p: "lastSmsCooldown ?p = lastSmsCooldown s"
    by (rule before_sensors_lastSmsCooldown)
  then have "lastSmsCooldown (loop_sensors L e ?p) = lastSmsCooldown s"
    using assms by (simp add: loop_sensors_blocked read_sensors_lastSmsCooldown)
  then show ?thesis
    by (simp add: loop_def loop_before_db_def loop_db_lastSmsCooldown)
qed

lemma run_lastSmsCooldown_blocked:
  "\<forall>e\<in>set es. e_ms_alert1 e - lastSmsCooldown s < SMS_COOLDOWN \<Longrightarrow>
   lastSmsCooldown (run L es s) = lastSmsCooldown s"
proof (induction es arbitrary: s)
  case Nil
  then show ?case by simp
next
  case (Cons e es)
  have 1: "lastSmsCooldown (loop L e s) = lastSmsCooldown s"
    using Cons.prems by (simp add: loop_lastSmsCooldown_blocked)
  have "lastSmsCooldown (run L es (loop L e s)) = lastSmsCooldown (loop L e s)"
    using Cons.prems 1 by (intro Cons.IH) simp
  then show ?case using 1 by simp
qed

text \<open>
  C1. Let a breach be evaluated at time \<open>t1\<close> with the cooldown clear, so that
  \<^verbatim>\<open>checkAlerts\<close> raises an alert. Then the job is handed to \<^verbatim>\<open>triggerSMS\<close> and the
  cooldown timer is restamped in that same call (with the clock read at \<open>t1'\<close>); the
  dispatcher never writes the timer; no pass of \<^verbatim>\<open>loop\<close> that tests the cooldown less
  than 300000 ms after the restamp changes the timer; and an evaluation at any time \<open>t2\<close>
  less than 300000 ms after \<open>t1\<close>, after those passes or in any state \<open>s'\<close> that still
  holds this timer, returns the state unchanged, whichever of the four readings breach.
\<close>

theorem checkAlerts_global_cooldown:
  assumes "t1 \<le> t1'" and "t1' \<le> t2" and "t2 - t1 < 300000"
    and "\<not> millis t1 - lastSmsCooldown s < SMS_COOLDOWN"
    and "alertMessage L s = Some msg"
    and "\<forall>e\<in>set es. e_ms_alert1 e - millis t1' < SMS_COOLDOWN"
    and "lastSmsCooldown s' = millis t1'"
  shows "checkAlerts L (millis t1) (millis t1') s
           = (triggerSMS (activePhoneNumber s) msg s)\<lparr>lastSmsCooldown := millis t1'\<rparr>
         \<and> lastSmsCooldown (manageSMS now s') = lastSmsCooldown s'
         \<and> lastSmsCooldown (run L' es (checkAlerts L (millis t1) (millis t1') s)) = millis t1'
         \<and> checkAlerts L' (millis t2) m2 (run L' es (checkAlerts L (millis t1) (millis t1') s))
             = run L' es (checkAlerts L (millis t1) (millis t1') s)
         \<and> checkAlerts L' (millis t2) m2 s' = s'"
proof -
  have a: "checkAlerts L (millis t1) (millis t1') s
           = (triggerSMS (activePhoneNumber s) msg s)\<lparr>lastSmsCooldown := millis t1'\<rparr>"
    using assms(4,5) by (rule checkAlerts_raise)
  have b: "lastSmsCooldown (manageSMS now s') = lastSmsCooldown s'"
    using manageSMS_same [of s' now] by (simp add: same_readings_def)
  have c: "lastSmsCooldown (run L' es (checkAlerts L (millis t1) (millis t1') s)) = millis t1'"
    using assms(6) run_lastSmsCooldown_blocked [of es "checkAlerts L (millis t1) (millis t1') s" L']
    by (simp add: a)
  have "t2 - t1' < 300000" using assms(1,3) by simp
  then have "millis t2 - millis t1' < SMS_COOLDOWN"
    using assms(2) by (intro millis_in_cooldown)
  then have w: "millis t2 - millis t1' < SMS_COOLDOWN" .
  have d: "checkAlerts L' (millis t2) m2 s' = s'"
    using w assms(7) by (simp add: checkAlerts_blocked)
  have e: "checkAlerts L' (millis t2) m2 (run L' es (checkAlerts L (millis t1) (millis t1') s))
             = run L' es (checkAlerts L (millis t1) (millis t1') s)"
    using w c by (simp add: checkAlerts_blocked)
  show ?thesis using a b c d e by blast
qed

theorem checkAlerts_global_cooldown_witness:
  "checkAlerts sample_lib (millis 300000) (millis 300001) (boot\<lparr>temperature := Finite 42\<rparr>)
     = (triggerSMS (activePhoneNumber (boot\<lparr>temperature := Finite 42\<rparr>))
         (warning_sign @ '' Alert: High Temperature! Reading: 42.0C. Limit: 40.0'')
         (boot\<lparr>temperature := Finite 42\<rparr>))\<lparr>lastSmsCooldown := millis 300001\<rparr>
   \<and> lastSmsCooldown (manageSMS 0
         (boot\<lparr>humidity := Finite 99, lastSmsCooldown := millis 300001\<rparr>))
       = lastSmsCooldown (boot\<lparr>humidity := Finite 99, lastSmsCooldown := millis 300001\<rparr>)
   \<and> lastSmsCooldown (run sample_lib [sample_env\<lparr>e_ms_alert1 := millis 300500\<rparr>]
         (checkAlerts sample_lib (millis 300000) (millis 300001) (boot\<lparr>temperature := Finite 42\<rparr>)))
       = millis 300001
   \<and> checkAlerts sample_lib (millis 301000) (millis 301001)
         (run sample_lib [sample_env\<lparr>e_ms_alert1 := millis 300500\<rparr>]
           (checkAlerts sample_lib (millis 300000) (millis 300001) (boot\<lparr>temperature := Finite 42\<rparr>)))
       = run sample_lib [sample_env\<lparr>e_ms_alert1 := millis 300500\<rparr>]
           (checkAlerts sample_lib (millis 300000) (millis 300001) (boot\<lparr>temperature := Finite 42\<rparr>))
   \<and> checkAlerts sample_lib (millis 301000) (millis 301001)
         (boot\<lparr>humidity := Finite 99, lastSmsCooldown := millis 300001\<rparr>)
       = boot\<lparr>humidity := Finite 99, lastSmsCooldown := millis 300001\<rparr>"
proof (rule checkAlerts_global_cooldown)
  show "(300000::nat) \<le> 300001" by simp
  show "(300001::nat) \<le> 301000" by simp
  show "(301000::nat) - 300000 < 300000" by simp
  show "\<not> millis 300000 - lastSmsCooldown (boot\<lparr>temperature := Finite 42\<rparr>) < SMS_COOLDOWN"
    by (simp add: boot_def millis_def SMS_COOLDOWN_def)
  show "alertMessage sample_lib (boot\<lparr>temperature := Finite 42\<rparr>)
        = Some (warning_sign @ '' Alert: High Temperature! Reading: 42.0C. Limit: 40.0'')"
    by (simp add: alertMessage_def boot_def sample_lib_def sample_f1_def)
  show "\<forall>e\<in>set [sample_env\<lparr>e_ms_alert1 := millis 300500\<rparr>].
          e_ms_alert1 e - millis 300001 < SMS_COOLDOWN"
    by (simp add: millis_def SMS_COOLDOWN_def)
  show "lastSmsCooldown (boot\<lparr>humidity := Finite 99, lastSmsCooldown := millis 300001\<rparr>)
        = millis 300001"
    by simp
qed

section \<open>The alert evaluator\<close>

lemma fgt_irrefl: "\<not> fgt x x"
  by (cases x) simp_all

lemma checkAlerts_one_trigger:
  "checkAlerts L m1 m2 s = s
   \<or> (\<exists>msg. alertMessage L s = Some msg
        \<and> checkAlerts L m1 m2 s = (triggerSMS (activePhoneNumber s) msg s)\<lparr>lastSmsCooldown := m2\<rparr>)"
  by (simp add: checkAlerts_def split: option.splits)

text \<open>
  C4. The evaluator tests temperature, humidity, weight and air quality in this order
  and yields the text of the first one whose reading is strictly greater than its limit
  (\<open>fgt\<close> on two numbers is \<open><\<close>), or nothing; a reading equal to its limit is no
  breach. One call of \<^verbatim>\<open>checkAlerts\<close> either leaves the state unchanged or makes one
  \<^verbatim>\<open>triggerSMS\<close> call, with that one text.
\<close>

theorem alertMessage_first_breach_wins:
  "(fgt (temperature s) (lim_temp s) \<longrightarrow>
      alertMessage L s =
        Some (warning_sign @ '' Alert: High Temperature! Reading: '' @ String_f1 L (temperature s)
              @ ''C. Limit: '' @ String_f1 L (lim_temp s)))
   \<and> (\<not> fgt (temperature s) (lim_temp s) \<and> fgt (humidity s) (lim_hum s) \<longrightarrow>
      alertMessage L s =
        Some (warning_sign @ '' Alert: High Humidity! Reading: '' @ String_f1 L (humidity s)
              @ ''%. Limit: '' @ String_f1 L (lim_hum s)))
   \<and> (\<not> fgt (temperature s) (lim_temp s) \<and> \<not> fgt (humidity s) (lim_hum s)
       \<and> fgt (weight s) (lim_weight s) \<longrightarrow>
      alertMessage L s =
        Some (warning_sign @ '' Alert: Weight Exceeded! Reading: '' @ String_f1 L (weight s)
              @ ''kg. Limit: '' @ String_f1 L (lim_weight s)))
   \<and> (\<not> fgt (temperature s) (lim_temp s) \<and> \<not> fgt (humidity s) (lim_hum s)
       \<and> \<not> fgt (weight s) (lim_weight s) \<and> lim_air s < mq135_raw s \<longrightarrow>
      alertMessage L s =
        Some (warning_sign @ '' Alert: Poor Air Quality! Reading: '' @ String_d L (mq135_raw s)
              @ ''. Limit: '' @ String_d L (lim_air s)))
   \<and> (\<not> fgt (temperature s) (lim_temp s) \<and> \<not> fgt (humidity s) (lim_hum s)
       \<and> \<not> fgt (weight s) (lim_weight s) \<and> \<not> lim_air s < mq135_raw s \<longrightarrow>
      alertMessage L s = None)
   \<and> (temperature s = lim_temp s \<and> humidity s = lim_hum s \<and> weight s = lim_weight s
       \<and> mq135_raw s = lim_air s \<longrightarrow> alertMessage L s = None)
   \<and> (fgt (Finite x) (Finite y) \<longleftrightarrow> y < x)
   \<and> (checkAlerts L m1 m2 s = s
       \<or> (\<exists>msg. alertMessage L s = Some msg
            \<and> checkAlerts L m1 m2 s
                = (triggerSMS (activePhoneNumber s) msg s)\<lparr>lastSmsCooldown := m2\<rparr>))"
  using checkAlerts_one_trigger [of L m1 m2 s]
  by (simp add: alertMessage_def fgt_irrefl)

theorem alertMessage_first_breach_wins_witness:
  "fgt (temperature (boot\<lparr>temperature := Finite 42, humidity := Finite 99\<rparr>))
       (lim_temp (boot\<lparr>temperature := Finite 42, humidity := Finite 99\<rparr>))
   \<and> fgt (humidity (boot\<lparr>temperature := Finite 42, humidity := Finite 99\<rparr>))
       (lim_hum (boot\<lparr>temperature := Finite 42, humidity := Finite 99\<rparr>))
   \<and> alertMessage sample_lib (boot\<lparr>temperature := Finite 42, humidity := Finite 99\<rparr>)
       = Some (warning_sign @ '' Alert: High Temperature! Reading: 42.0C. Limit: 40.0'')
   \<and> alertMessage sample_lib (boot\<lparr>temperature := Finite 40, mq135_raw := 401\<rparr>)
       = Some (warning_sign @ '' Alert: Poor Air Quality! Reading: 0. Limit: 0'')
   \<and> alertMessage sample_lib (boot\<lparr>temperature := Finite 40, mq135_raw := 400\<rparr>) = None"
proof -
  let ?a = "boot\<lparr>temperature := Finite 42, humidity := Finite 99\<rparr>"
  let ?b = "boot\<lparr>temperature := Finite 40, mq135_raw := 401\<rparr>"
  let ?c = "boot\<lparr>temperature := Finite 40, mq135_raw := 400\<rparr>"
  note T = alertMessage_first_breach_wins
  have a1: "fgt (temperature ?a) (lim_temp ?a)" by (simp add: boot_def)
  have a2: "fgt (humidity ?a) (lim_hum ?a)" by (simp add: boot_def)
  have a: "alertMessage sample_lib ?a
       = Some (warning_sign @ '' Alert: High Temperature! Reading: 42.0C. Limit: 40.0'')"
    unfolding T [where s = ?a and L = sample_lib, THEN conjunct1, rule_format, OF a1]
    by (simp add: boot_def sample_lib_def sample_f1_def)
  have b1: "\<not> fgt (temperature ?b) (lim_temp ?b) \<and> \<not> fgt (humidity ?b) (lim_hum ?b)
       \<and> \<not> fgt (weight ?b) (lim_weight ?b) \<and> lim_air ?b < mq135_raw ?b"
    by (simp add: boot_def)
  have b: "alertMessage sample_lib ?b
       = Some (warning_sign @ '' Alert: Poor Air Quality! Reading: 0. Limit: 0'')"
    unfolding T [where s = ?b and L = sample_lib, THEN conjunct2, THEN conjunct2, THEN conjunct2,
        THEN conjunct1, rule_format, OF b1]
    by (simp add: boot_def sample_lib_def)
  have c1: "\<not> fgt (temperature ?c) (lim_temp ?c) \<and> \<not> fgt (humidity ?c) (lim_hum ?c)
       \<and> \<not> fgt (weight ?c) (lim_weight ?c) \<and> \<not> lim_air ?c < mq135_raw ?c"
    by (simp add: boot_def)
  have c: "alertMessage sample_lib ?c = None"
    by (rule T [where s = ?c and L = sample_lib, THEN conjunct2, THEN conjunct2, THEN conjunct2,
        THEN conjunct2, THEN conjunct1, rule_format, OF c1])
  show ?thesis using a1 a2 a b c by simp
qed

section \<open>The cooldown at power-on\<close>

lemma same_dispatcher_refl: "same_dispatcher s s"
  by (simp add: same_dispatcher_def)

lemma is_authenticated_same_dispatcher: "same_dispatcher s (snd (is_authenticated m1 m2 c s))"
  by (simp add: same_dispatcher_def is_authenticated_def split: option.splits)

lemma authenticated_same_dispatcher: "authenticated e rq s = (ok, s1) \<Longrightarrow> same_dispatcher s s1"
  using is_authenticated_same_dispatcher [of s "e_ms_auth1 e" "e_ms_auth2 e" "rq_cookie rq"]
  by (simp add: authenticated_def)

lemma handle_root_same_dispatcher: "same_dispatcher s (snd (handle_root e rq s))"
  by (auto simp: handle_root_def dest: authenticated_same_dispatcher split: prod.splits)

lemma handle_login_same_dispatcher: "same_dispatcher s (snd (handle_login e rq s))"
  by (simp add: handle_login_def same_dispatcher_def)

lemma handle_logout_same_dispatcher: "same_dispatcher s (snd (handle_logout e rq s))"
  by (simp add: handle_logout_def same_dispatcher_def)

lemma handle_dashboard_same_dispatcher: "same_dispatcher s (snd (handle_dashboard e rq s))"
  by (auto simp: handle_dashboard_def dest: authenticated_same_dispatcher split: prod.splits)

lemma handle_report_same_dispatcher: "same_dispatcher s (snd (handle_report e rq s))"
  by (auto simp: handle_report_def dest: authenticated_same_dispatcher split: prod.splits)

lemma handle_data_same_dispatcher: "same_dispatcher s (snd (handle_data L e rq s))"
  by (auto simp: handle_data_def dest: authenticated_same_dispatcher split: prod.splits)

lemma handle_get_settings_same_dispatcher: "same_dispatcher s (snd (handle_get_settings L e rq s))"
  by (auto simp: handle_get_settings_def dest: authenticated_same_dispatcher split: prod.splits)

lemma handle_save_settings_same_dispatcher:
  "same_dispatcher s (snd (handle_save_settings L e rq s))"
proof (cases "authenticated e rq s")
  case (Pair ok s1)
  then have "same_dispatcher s s1" by (rule authenticated_same_dispatcher)
  then show ?thesis
    using Pair
    by (simp add: handle_save_settings_def same_dispatcher_def Serial_println_def Let_def)
qed

lemma handle_history_same_dispatcher: "same_dispatcher s (snd (handle_history L e rq s))"
  by (auto simp: handle_history_def dest: authenticated_same_dispatcher split: prod.splits)

lemma handle_monthly_data_same_dispatcher:
  "same_dispatcher s (snd (handle_monthly_data L e rq s))"
  by (auto simp: handle_monthly_data_def dest: authenticated_same_dispatcher split: prod.splits)

lemma handleClient_same_dispatcher:
  assumes "no_sms_request e"
  shows "same_dispatcher s (snd (handleClient L e s))"
proof (cases "e_request e")
  case None
  then show ?thesis by (simp add: handleClient_def same_dispatcher_refl)
next
  case (Some rq)
  then have "rq_uri rq \<noteq> ''/sms''"
    using assms by (simp add: no_sms_request_def)
  then show ?thesis
    using Some handle_root_same_dispatcher [of s e rq] handle_login_same_dispatcher [of s e rq]
      handle_logout_same_dispatcher [of s e rq]
      handle_dashboard_same_dispatcher [of s e rq] handle_report_same_dispatcher [of s e rq]
      handle_data_same_dispatcher [of s L e rq] handle_get_settings_same_dispatcher [of s L e rq]
      handle_save_settings_same_dispatcher [of s L e rq]
      handle_history_same_dispatcher [of s L e rq] handle_monthly_data_same_dispatcher [of s L e rq]
    by (simp add: handleClient_def case_prod_beta same_dispatcher_refl)
qed

lemma loop_wifi_same_dispatcher: "same_dispatcher s (loop_wifi e s)"
  by (simp add: loop_wifi_def same_dispatcher_def Serial_println_def Let_def)

lemma read_sensors_same_dispatcher: "same_dispatcher s (read_sensors e s)"
  by (simp add: read_sensors_def same_dispatcher_def Let_def)

lemma loop_db_same_dispatcher: "same_dispatcher s (loop_db L e s)"
  by (simp add: loop_db_def saveToDatabase_def same_dispatcher_def Serial_println_def Let_def)

lemma loop_quiet:
  assumes cd: "e_ms_alert1 e - lastSmsCooldown s < SMS_COOLDOWN"
    and idle: "currentSmsState s = SMS_IDLE" and nosms: "no_sms_request e"
  shows "same_dispatcher s (loop L e s)"
proof -
  let ?a = "snd (handleClient L e s)"
  let ?b = "manageSMS (e_ms_sms e) ?a"
  let ?c = "loop_wifi e ?b"
  let ?d = "loop_sensors L e ?c"
  have a: "same_dispatcher s ?a" using nosms by (rule handleClient_same_dispatcher)
  then have "currentSmsState ?a = SMS_IDLE" using idle by (simp add: same_dispatcher_def)
  then have b: "?b = ?a" by (rule manageSMS_IDLE)
  have c: "same_dispatcher ?b ?c" by (rule loop_wifi_same_dispatcher)
  have "lastSmsCooldown ?c = lastSmsCooldown s" by (rule before_sensors_lastSmsCooldown)
  then have "?d = (if e_now e - lastSensorMillis ?c \<ge> SENSOR_INTERVAL
      then read_sensors e (?c\<lparr>lastSensorMillis := e_now e\<rparr>) else ?c)"
    using cd by (simp add: loop_sensors_blocked)
  then have d: "same_dispatcher ?c ?d"
    using read_sensors_same_dispatcher [of "?c\<lparr>lastSensorMillis := e_now e\<rparr>" e]
    by (simp add: same_dispatcher_def)
  have e: "same_dispatcher ?d (loop_db L e ?d)" by (rule loop_db_same_dispatcher)
  have "loop L e s = loop_db L e ?d" by (simp add: loop_def loop_before_db_def)
  then show ?thesis
    using a b c d e by (simp add: same_dispatcher_def)
qed

lemma run_quiet:
  "\<forall>e\<in>set es. e_ms_alert1 e - lastSmsCooldown s < SMS_COOLDOWN \<and> no_sms_request e \<Longrightarrow>
   currentSmsState s = SMS_IDLE \<Longrightarrow> same_dispatcher s (run L es s)"
proof (induction es arbitrary: s)
  case Nil
  then show ?case by (simp add: same_dispatcher_refl)
next
  case (Cons e es)
  have 1: "lastSmsCooldown (loop L e s) = lastSmsCooldown s"
    using Cons.prems by (simp add: loop_lastSmsCooldown_blocked)
  have 2: "same_dispatcher s (loop L e s)"
    using Cons.prems by (intro loop_quiet) simp_all
  then have 3: "currentSmsState (loop L e s) = SMS_IDLE"
    using Cons.prems(2) by (simp add: same_dispatcher_def)
  have "same_dispatcher (loop L e s) (run L es (loop L e s))"
    using Cons.prems 1 3 by (intro Cons.IH) simp_all
  then show ?case using 2 by (simp add: same_dispatcher_def)
qed

lemma millis_small: "t < 300000 \<Longrightarrow> millis t < SMS_COOLDOWN"
  by (simp add: millis_def SMS_COOLDOWN_def word_less_nat_alt unat_of_nat)

text \<open>
  C10. The cooldown timer starts at 0. While it is 0, an evaluation that reads a clock
  below 300000 returns the state unchanged, whatever breaches. So over any number of
  passes of \<^verbatim>\<open>loop\<close> whose cooldown tests read a clock below 300000 the timer stays 0;
  and if the dispatcher starts idle and no pass serves a request for \<^verbatim>\<open>/sms\<close> (the manual
  test), the dispatcher stays idle and nothing is sent to the modem.
\<close>

theorem no_alert_in_first_cooldown:
  assumes "lastSmsCooldown s = 0"
    and "\<forall>e\<in>set es. e_ms_alert1 e < SMS_COOLDOWN"
  shows "lastSmsCooldown boot = 0
     \<and> (t < 300000 \<longrightarrow> checkAlerts L (millis t) m2 s = s)
     \<and> lastSmsCooldown (run L es s) = 0
     \<and> (currentSmsState s = SMS_IDLE \<and> (\<forall>e\<in>set es. no_sms_request e) \<longrightarrow>
          currentSmsState (run L es s) = SMS_IDLE \<and> sim800_tx (run L es s) = sim800_tx s
          \<and> smsQueueMsg (run L es s) = smsQueueMsg s)"
proof -
  have a: "lastSmsCooldown boot = 0" by (simp add: boot_def)
  have b: "t < 300000 \<longrightarrow> checkAlerts L (millis t) m2 s = s"
    using assms(1) millis_small [of t] by (simp add: checkAlerts_blocked)
  have blocked: "\<forall>e\<in>set es. e_ms_alert1 e - lastSmsCooldown s < SMS_COOLDOWN"
    using assms by simp
  then have c: "lastSmsCooldown (run L es s) = 0"
    using assms(1) run_lastSmsCooldown_blocked [of es s L] by simp
  have d: "currentSmsState s = SMS_IDLE \<and> (\<forall>e\<in>set es. no_sms_request e) \<longrightarrow>
          currentSmsState (run L es s) = SMS_IDLE \<and> sim800_tx (run L es s) = sim800_tx s
          \<and> smsQueueMsg (run L es s) = smsQueueMsg s"
  proof
    assume h: "currentSmsState s = SMS_IDLE \<and> (\<forall>e\<in>set es. no_sms_request e)"
    then have "same_dispatcher s (run L es s)"
      using blocked by (intro run_quiet) simp_all
    then show "currentSmsState (run L es s) = SMS_IDLE \<and> sim800_tx (run L es s) = sim800_tx s
          \<and> smsQueueMsg (run L es s) = smsQueueMsg s"
      using h by (simp add: same_dispatcher_def)
  qed
  show ?thesis using a b c d by simp
qed

theorem no_alert_in_first_cooldown_witness:
  "lastSmsCooldown boot = 0
   \<and> checkAlerts sample_lib (millis 10000) (millis 10001) (boot\<lparr>temperature := Finite 42\<rparr>)
       = boot\<lparr>temperature := Finite 42\<rparr>
   \<and> lastSmsCooldown (run sample_lib
        [sample_env\<lparr>e_now := 10000, e_ms_alert1 := 10000, e_dht_temperature := Finite 42\<rparr>,
         sample_env\<lparr>e_now := 299999, e_ms_alert1 := 299999\<rparr>]
        (boot\<lparr>temperature := Finite 42\<rparr>)) = 0
   \<and> currentSmsState (run sample_lib
        [sample_env\<lparr>e_now := 10000, e_ms_alert1 := 10000, e_dht_temperature := Finite 42\<rparr>,
         sample_env\<lparr>e_now := 299999, e_ms_alert1 := 299999\<rparr>]
        (boot\<lparr>temperature := Finite 42\<rparr>)) = SMS_IDLE
   \<and> sim800_tx (run sample_lib
        [sample_env\<lparr>e_now := 10000, e_ms_alert1 := 10000, e_dht_temperature := Finite 42\<rparr>,
         sample_env\<lparr>e_now := 299999, e_ms_alert1 := 299999\<rparr>]
        (boot\<lparr>temperature := Finite 42\<rparr>)) = []"
proof -
  let ?s = "boot\<lparr>temperature := Finite 42\<rparr>"
  let ?es = "[sample_env\<lparr>e_now := 10000, e_ms_alert1 := 10000, e_dht_temperature := Finite 42\<rparr>,
         sample_env\<lparr>e_now := 299999, e_ms_alert1 := 299999\<rparr>]"
  have h1: "lastSmsCooldown ?s = 0" by (simp add: boot_def)
  have h2: "\<forall>e\<in>set ?es. e_ms_alert1 e < SMS_COOLDOWN" by (simp add: SMS_COOLDOWN_def)
  note T = no_alert_in_first_cooldown [OF h1 h2, where L = sample_lib and t = 10000
      and ?m2.0 = "millis 10001"]
  have t: "(10000::nat) < 300000" by simp
  have i: "currentSmsState ?s = SMS_IDLE \<and> (\<forall>e\<in>set ?es. no_sms_request e)"
    by (simp add: boot_def no_sms_request_def sample_env_def)
  have tx: "sim800_tx ?s = []" by (simp add: boot_def)
  show ?thesis
    using T t i tx by simp
qed

section \<open>The session check\<close>

lemma indexOf_from_found:
  "indexOf_from hay sub i \<noteq> - 1 \<longleftrightarrow> (\<exists>p q. hay = p @ sub @ q)"
proof (induction hay arbitrary: i)
  case Nil
  then show ?case by simp
next
  case (Cons c cs)
  show ?case
  proof (cases "take (length sub) (c # cs) = sub")
    case True
    then have "c # cs = [] @ sub @ drop (length sub) (c # cs)"
      by (metis append_Nil append_take_drop_id)
    then have "\<exists>p q. c # cs = p @ sub @ q" by blast
    then show ?thesis using True by simp
  next
    case False
    have "(\<exists>p q. c # cs = p @ sub @ q) \<longleftrightarrow> (\<exists>p q. cs = p @ sub @ q)"
    proof
      assume "\<exists>p q. c # cs = p @ sub @ q"
      then obtain p q where pq: "c # cs = p @ sub @ q" by blast
      show "\<exists>p q. cs = p @ sub @ q"
      proof (cases p)
        case Nil
        then have "take (length sub) (c # cs) = sub" using pq by simp
        then show ?thesis using False by simp
      next
        case (Cons a p')
        then have "cs = p' @ sub @ q" using pq by simp
        then show ?thesis by blast
      qed
    next
      assume "\<exists>p q. cs = p @ sub @ q"
      then obtain p q where "cs = p @ sub @ q" by blast
      then have "c # cs = (c # p) @ sub @ q" by simp
      then show "\<exists>p q. c # cs = p @ sub @ q" by blast
    qed
    then show ?thesis using False Cons.IH [of "Suc i"] by simp
  qed
qed

lemma indexOf_found: "indexOf hay sub \<noteq> - 1 \<longleftrightarrow> (\<exists>p q. hay = p @ sub @ q)"
  by (simp add: indexOf_def indexOf_from_found)

lemma is_authenticated_not_logged_in:
  "\<not> is_logged_in s \<Longrightarrow> is_authenticated m1 m2 c s = (False, s)"
  by (simp add: is_authenticated_def)

lemma is_authenticated_expired:
  "is_logged_in s \<Longrightarrow> session_expiry s < m1 \<Longrightarrow>
   is_authenticated m1 m2 c s = (False, s\<lparr>is_logged_in := False\<rparr>)"
  by (simp add: is_authenticated_def)

lemma is_authenticated_renew:
  "is_logged_in s \<Longrightarrow> \<not> session_expiry s < m1 \<Longrightarrow> c = Some (p @ ''ESPSESSIONID=1'' @ q) \<Longrightarrow>
   is_authenticated m1 m2 c s = (True, s\<lparr>session_expiry := m2 + 1800000\<rparr>)"
  using indexOf_found [of "p @ ''ESPSESSIONID=1'' @ q" "''ESPSESSIONID=1''"]
  by (auto simp: is_authenticated_def SESSION_TIMEOUT_def)

lemma is_authenticated_true:
  assumes "fst (is_authenticated m1 m2 c s)"
  shows "is_logged_in s \<and> \<not> session_expiry s < m1
         \<and> (\<exists>p q. c = Some (p @ ''ESPSESSIONID=1'' @ q))
         \<and> snd (is_authenticated m1 m2 c s) = s\<lparr>session_expiry := m2 + 1800000\<rparr>"
proof -
  have 1: "is_logged_in s" and 2: "\<not> session_expiry s < m1"
    using assms by (auto simp: is_authenticated_def split: if_splits)
  obtain ck where ck: "c = Some ck" and ix: "indexOf ck ''ESPSESSIONID=1'' \<noteq> - 1"
    using assms 1 2 by (auto simp: is_authenticated_def split: if_splits option.splits)
  obtain p q where "ck = p @ ''ESPSESSIONID=1'' @ q"
    using ix indexOf_found [of ck "''ESPSESSIONID=1''"] by blast
  then have 3: "c = Some (p @ ''ESPSESSIONID=1'' @ q)" using ck by simp
  then have "is_authenticated m1 m2 c s = (True, s\<lparr>session_expiry := m2 + 1800000\<rparr>)"
    using 1 2 by (intro is_authenticated_renew)
  then show ?thesis using 1 2 3 by auto
qed

lemma millis_plus_timeout: "millis t + 1800000 = millis (t + 1800000)"
  by (simp add: millis_def)

lemma split_semicolon_piece:
  "x \<in> set (split_semicolon s) \<Longrightarrow> \<exists>p q. s = p @ x @ q"
proof (induction s arbitrary: x)
  case Nil
  then show ?case by simp
next
  case (Cons c cs)
  show ?case
  proof (cases "c = CHR '';''")
    case True
    then have "x = [] \<or> x \<in> set (split_semicolon cs)"
      using Cons.prems by auto
    then show ?thesis
    proof
      assume "x = []"
      then have "c # cs = [] @ x @ (c # cs)" by simp
      then show ?thesis by blast
    next
      assume "x \<in> set (split_semicolon cs)"
      then obtain p q where "cs = p @ x @ q" using Cons.IH by blast
      then have "c # cs = (c # p) @ x @ q" by simp
      then show ?thesis by blast
    qed
  next
    case False
    show ?thesis
    proof (cases "split_semicolon cs")
      case Nil
      then have "x = [c]" using Cons.prems False by simp
      then have "c # cs = [] @ x @ cs" by simp
      then show ?thesis by blast
    next
      case (Cons y ys)
      then have "x = c # y \<or> x \<in> set ys" using Cons.prems False by auto
      then show ?thesis
      proof
        assume x: "x = c # y"
        have first: "\<exists>q. cs = y @ q"
          using Cons
        proof (induction cs arbitrary: y ys)
          case Nil
          then show ?case by simp
        next
          case (Cons d ds)
          then show ?case
            by (auto split: if_splits list.splits)
        qed
        then obtain q' where "cs = y @ q'" by blast
        then have "c # cs = [] @ x @ q'" using x by simp
        then show ?thesis by blast
      next
        assume "x \<in> set ys"
        then have "x \<in> set (split_semicolon cs)" using Cons by simp
        then obtain p q where "cs = p @ x @ q" using Cons.IH by blast
        then have "c # cs = (c # p) @ x @ q" by simp
        then show ?thesis by blast
      qed
    qed
  qed
qed

lemma presents_marker_contains:
  assumes "presents_session_marker c"
  shows "\<exists>p q. c = p @ ''ESPSESSIONID=1'' @ q"
proof -
  obtain x where x: "x \<in> set (split_semicolon c)"
    and d: "dropWhile (\<lambda>x. x = CHR '' '') x = ''ESPSESSIONID=1''"
    using assms by (auto simp: presents_session_marker_def cookie_pairs_def)
  obtain p q where pq: "c = p @ x @ q" using split_semicolon_piece [OF x] by blast
  have "x = takeWhile (\<lambda>x. x = CHR '' '') x @ ''ESPSESSIONID=1''"
    using d takeWhile_dropWhile_id [of "\<lambda>x. x = CHR '' ''" x] by simp
  then have "c = (p @ takeWhile (\<lambda>x. x = CHR '' '') x) @ ''ESPSESSIONID=1'' @ q"
    using pq by (metis append.assoc)
  then show ?thesis by blast
qed

lemma is_authenticated_presented:
  assumes "is_logged_in s" and "\<not> session_expiry s < m1" and "presents_session_marker ck"
  shows "is_authenticated m1 m2 (Some ck) s = (True, s\<lparr>session_expiry := m2 + 1800000\<rparr>)"
proof -
  obtain p q where "ck = p @ ''ESPSESSIONID=1'' @ q"
    using presents_marker_contains [OF assms(3)] by blast
  then have "Some ck = Some (p @ ''ESPSESSIONID=1'' @ q)" by simp
  with assms(1,2) show ?thesis by (rule is_authenticated_renew)
qed

text \<open>
  C9, as the claim states it, is false: the check does not require the request to
  present the cookie value that \<^verbatim>\<open>/login\<close> sets. \<^verbatim>\<open>cookie.indexOf("ESPSESSIONID=1")\<close>
  looks for the text anywhere in the header, so with a live session a request whose
  cookie is \<^verbatim>\<open>ESPSESSIONID=10\<close> is authenticated, and renews the session, although it
  does not present \<^verbatim>\<open>ESPSESSIONID=1\<close>.
\<close>

theorem is_authenticated_marker_counterexample:
  "\<not> (fst (is_authenticated 5000 5001 (Some ''ESPSESSIONID=10'')
           (boot\<lparr>is_logged_in := True, session_expiry := 1800000\<rparr>))
       \<longrightarrow> presents_session_marker ''ESPSESSIONID=10'')
   \<and> is_authenticated 5000 5001 (Some ''ESPSESSIONID=10'')
        (boot\<lparr>is_logged_in := True, session_expiry := 1800000\<rparr>)
       = (True, boot\<lparr>is_logged_in := True, session_expiry := 1805001\<rparr>)"
proof -
  have a: "is_authenticated 5000 5001 (Some ''ESPSESSIONID=10'')
        (boot\<lparr>is_logged_in := True, session_expiry := 1800000\<rparr>)
       = (True, boot\<lparr>is_logged_in := True, session_expiry := 1805001\<rparr>)"
    by (simp add: is_authenticated_def indexOf_def SESSION_TIMEOUT_def)
  have b: "\<not> presents_session_marker ''ESPSESSIONID=10''"
    by code_simp
  show ?thesis
    using b unfolding a by simp
qed

text \<open>
  C9, amended. \<^verbatim>\<open>is_authenticated\<close> returns false when the flag is unset, and when the
  clock read \<open>m1\<close> is past the stored expiry; in the second case it clears the flag, so
  that every later call returns false too, whatever the clock and the cookie. It returns
  true only if the flag is set, the expiry is not passed and the \<^verbatim>\<open>Cookie\<close> header
  contains the text \<^verbatim>\<open>ESPSESSIONID=1\<close> somewhere (a substring test: \<^verbatim>\<open>ESPSESSIONID=10\<close>
  passes as well); whenever these three hold it returns true and sets the expiry to the
  clock read \<open>m2\<close> plus 1800000 ms (in 32-bit arithmetic: what \<^verbatim>\<open>millis()\<close> returns
  1800000 ms later). In particular a request that presents the cookie
  \<^verbatim>\<open>ESPSESSIONID=1\<close> passes while the session is live.
\<close>

theorem is_authenticated_sliding_window:
  "(\<not> is_logged_in s \<longrightarrow> is_authenticated m1 m2 c s = (False, s))
   \<and> (is_logged_in s \<and> session_expiry s < m1 \<longrightarrow>
        is_authenticated m1 m2 c s = (False, s\<lparr>is_logged_in := False\<rparr>)
        \<and> is_authenticated m1' m2' c' (snd (is_authenticated m1 m2 c s))
            = (False, s\<lparr>is_logged_in := False\<rparr>))
   \<and> (fst (is_authenticated m1 m2 c s) \<longrightarrow>
        is_logged_in s \<and> \<not> session_expiry s < m1
        \<and> (\<exists>p q. c = Some (p @ ''ESPSESSIONID=1'' @ q))
        \<and> snd (is_authenticated m1 m2 c s) = s\<lparr>session_expiry := m2 + 1800000\<rparr>)
   \<and> (is_logged_in s \<and> \<not> session_expiry s < m1 \<and> c = Some (p @ ''ESPSESSIONID=1'' @ q) \<longrightarrow>
        is_authenticated m1 m2 c s = (True, s\<lparr>session_expiry := m2 + 1800000\<rparr>))
   \<and> millis t + 1800000 = millis (t + 1800000)
   \<and> (is_logged_in s \<and> \<not> session_expiry s < m1 \<and> presents_session_marker ck \<longrightarrow>
        is_authenticated m1 m2 (Some ck) s = (True, s\<lparr>session_expiry := m2 + 1800000\<rparr>))"
proof -
  have dead: "is_logged_in s \<and> session_expiry s < m1 \<longrightarrow>
        is_authenticated m1 m2 c s = (False, s\<lparr>is_logged_in := False\<rparr>)
        \<and> is_authenticated m1' m2' c' (snd (is_authenticated m1 m2 c s))
            = (False, s\<lparr>is_logged_in := False\<rparr>)"
    by (simp add: is_authenticated_expired is_authenticated_not_logged_in)
  show ?thesis
    using dead is_authenticated_not_logged_in [of s m1 m2 c] is_authenticated_true [of m1 m2 c s]
      is_authenticated_renew [of s m1 c p q m2] millis_plus_timeout [of t]
      is_authenticated_presented [of s m1 ck m2]
    by blast
qed

theorem is_authenticated_sliding_window_witness:
  "is_authenticated 5000 5001 (Some ''ESPSESSIONID=1'') boot = (False, boot)
   \<and> is_authenticated 2000000 2000001 (Some ''ESPSESSIONID=1'')
        (boot\<lparr>is_logged_in := True, session_expiry := 1800000\<rparr>)
       = (False, boot\<lparr>is_logged_in := False, session_expiry := 1800000\<rparr>)
   \<and> is_authenticated 5000 5001 (Some (''a=b; '' @ ''ESPSESSIONID=1'' @ ''; c=d''))
        (boot\<lparr>is_logged_in := True, session_expiry := 1800000\<rparr>)
       = (True, boot\<lparr>is_logged_in := True, session_expiry := 1805001\<rparr>)
   \<and> fst (is_authenticated 5000 5001 (Some (''a=b; '' @ ''ESPSESSIONID=1'' @ ''; c=d''))
        (boot\<lparr>is_logged_in := True, session_expiry := 1800000\<rparr>))
   \<and> snd (is_authenticated 5000 5001 (Some (''a=b; '' @ ''ESPSESSIONID=1'' @ ''; c=d''))
        (boot\<lparr>is_logged_in := True, session_expiry := 1800000\<rparr>))
       = boot\<lparr>is_logged_in := True, session_expiry := 1805001\<rparr>
   \<and> presents_session_marker ''theme=dark; ESPSESSIONID=1''
   \<and> is_authenticated 6000 6001 (Some ''theme=dark; ESPSESSIONID=1'')
        (boot\<lparr>is_logged_in := True, session_expiry := 1800000\<rparr>)
       = (True, boot\<lparr>is_logged_in := True, session_expiry := 1806001\<rparr>)"
proof -
  let ?s = "boot\<lparr>is_logged_in := True, session_expiry := 1800000\<rparr>"
  note T = is_authenticated_sliding_window
  have a0: "\<not> is_logged_in boot" by (simp add: boot_def)
  have a: "is_authenticated 5000 5001 (Some ''ESPSESSIONID=1'') boot = (False, boot)"
    by (rule T [THEN conjunct1, rule_format, OF a0])
  have b0: "is_logged_in ?s \<and> session_expiry ?s < 2000000" by simp
  have b: "is_authenticated 2000000 2000001 (Some ''ESPSESSIONID=1'') ?s
       = (False, boot\<lparr>is_logged_in := False, session_expiry := 1800000\<rparr>)"
    using T [where s = ?s and ?m1.0 = 2000000 and ?m2.0 = 2000001
        and c = "Some ''ESPSESSIONID=1''", THEN conjunct2, THEN conjunct1, rule_format, OF b0,
        THEN conjunct1]
    by simp
  have c0: "is_logged_in ?s \<and> \<not> session_expiry ?s < 5000
      \<and> Some (''a=b; '' @ ''ESPSESSIONID=1'' @ ''; c=d'')
          = Some (''a=b; '' @ ''ESPSESSIONID=1'' @ ''; c=d'')" by simp
  have c: "is_authenticated 5000 5001 (Some (''a=b; '' @ ''ESPSESSIONID=1'' @ ''; c=d'')) ?s
       = (True, boot\<lparr>is_logged_in := True, session_expiry := 1805001\<rparr>)"
    using T [where s = ?s and ?m1.0 = 5000 and ?m2.0 = 5001,
        THEN conjunct2, THEN conjunct2, THEN conjunct2, THEN conjunct1, rule_format, OF c0]
    by simp
  have d: "fst (is_authenticated 5000 5001 (Some (''a=b; '' @ ''ESPSESSIONID=1'' @ ''; c=d'')) ?s)"
    unfolding c by simp
  have e: "snd (is_authenticated 5000 5001 (Some (''a=b; '' @ ''ESPSESSIONID=1'' @ ''; c=d'')) ?s)
       = boot\<lparr>is_logged_in := True, session_expiry := 1805001\<rparr>"
    using T [where s = ?s and ?m1.0 = 5000 and ?m2.0 = 5001,
        THEN conjunct2, THEN conjunct2, THEN conjunct1, rule_format, OF d]
    by simp
  have f0: "presents_session_marker ''theme=dark; ESPSESSIONID=1''"
    by code_simp
  have f1: "is_logged_in ?s \<and> \<not> session_expiry ?s < 6000
      \<and> presents_session_marker ''theme=dark; ESPSESSIONID=1''"
    using f0 by simp
  have f: "is_authenticated 6000 6001 (Some ''theme=dark; ESPSESSIONID=1'') ?s
       = (True, boot\<lparr>is_logged_in := True, session_expiry := 1806001\<rparr>)"
    using T [where s = ?s and ?m1.0 = 6000 and ?m2.0 = 6001,
        THEN conjunct2, THEN conjunct2, THEN conjunct2, THEN conjunct2, THEN conjunct2,
        rule_format, OF f1]
    by simp
  show ?thesis using a b c d e f0 f by blast
qed

section \<open>Requests without a session\<close>

lemma unauthenticated_redirect_with_Location:
  assumes "\<not> fst (authenticated e rq s)"
  shows "handle_dashboard e rq s
           = (\<lparr>rs_status = 303, rs_type = None, rs_headers = [(''Location'', ''/'')],
               rs_body = Str []\<rparr>, snd (authenticated e rq s))
         \<and> handle_report e rq s
           = (\<lparr>rs_status = 303, rs_type = None, rs_headers = [(''Location'', ''/'')],
               rs_body = Str []\<rparr>, snd (authenticated e rq s))"
  using assms by (simp add: handle_dashboard_def handle_report_def case_prod_beta)

lemma unauthenticated_303_without_Location:
  assumes "\<not> fst (authenticated e rq s)"
  shows "handle_data L e rq s = (send_303_plain, snd (authenticated e rq s))
         \<and> handle_get_settings L e rq s = (send_303_plain, snd (authenticated e rq s))
         \<and> handle_save_settings L e rq s = (send_303_plain, snd (authenticated e rq s))
         \<and> handle_sms e rq s = (send_303_plain, snd (authenticated e rq s))
         \<and> handle_history L e rq s = (send_303_plain, snd (authenticated e rq s))
         \<and> handle_monthly_data L e rq s = (send_303_plain, snd (authenticated e rq s))
         \<and> map_of (rs_headers send_303_plain) ''Location'' = None"
  using assms
  by (simp add: handle_data_def handle_get_settings_def handle_save_settings_def handle_sms_def
      handle_history_def handle_monthly_data_def case_prod_beta send_303_plain_def)

text \<open>
  C8. What the server answers before any login (flag unset, no cookie) on each
  privileged route. \<^verbatim>\<open>/dashboard\<close> and \<^verbatim>\<open>/report\<close> answer 303 with the header
  \<^verbatim>\<open>Location: /\<close>. The other six answer 303 with content type \<^verbatim>\<open>text/plain\<close> and the
  body \<^verbatim>\<open>/\<close>, and with no \<^verbatim>\<open>Location\<close> header: the target of the redirect was passed
  as the content of \<^verbatim>\<open>server.send\<close>. None serves its normal body.
\<close>

theorem json_routes_unauthenticated_no_Location:
  "handleClient sample_lib
     (sample_env\<lparr>e_request := Some \<lparr>rq_method = HTTP_GET, rq_uri = ''/data'',
        rq_cookie = None, rq_args = []\<rparr>\<rparr>) boot
    = (Some \<lparr>rs_status = 303, rs_type = Some ''text/plain'', rs_headers = [],
              rs_body = Str ''/''\<rparr>, boot)
   \<and> handleClient sample_lib
     (sample_env\<lparr>e_request := Some \<lparr>rq_method = HTTP_GET, rq_uri = ''/get_settings'',
        rq_cookie = None, rq_args = []\<rparr>\<rparr>) boot
    = (Some \<lparr>rs_status = 303, rs_type = Some ''text/plain'', rs_headers = [],
              rs_body = Str ''/''\<rparr>, boot)
   \<and> handleClient sample_lib
     (sample_env\<lparr>e_request := Some \<lparr>rq_method = HTTP_POST, rq_uri = ''/save_settings'',
        rq_cookie = None, rq_args = [(''phone'', ''+254711111111'')]\<rparr>\<rparr>) boot
    = (Some \<lparr>rs_status = 303, rs_type = Some ''text/plain'', rs_headers = [],
              rs_body = Str ''/''\<rparr>, boot)
   \<and> handleClient sample_lib
     (sample_env\<lparr>e_request := Some \<lparr>rq_method = HTTP_POST, rq_uri = ''/sms'',
        rq_cookie = None, rq_args = []\<rparr>\<rparr>) boot
    = (Some \<lparr>rs_status = 303, rs_type = Some ''text/plain'', rs_headers = [],
              rs_body = Str ''/''\<rparr>, boot)
   \<and> handleClient sample_lib
     (sample_env\<lparr>e_request := Some \<lparr>rq_method = HTTP_GET, rq_uri = ''/history'',
        rq_cookie = None, rq_args = []\<rparr>\<rparr>) boot
    = (Some \<lparr>rs_status = 303, rs_type = Some ''text/plain'', rs_headers = [],
              rs_body = Str ''/''\<rparr>, boot)
   \<and> handleClient sample_lib
     (sample_env\<lparr>e_request := Some \<lparr>rq_method = HTTP_GET, rq_uri = ''/monthly_data'',
        rq_cookie = None, rq_args = []\<rparr>\<rparr>) boot
    = (Some \<lparr>rs_status = 303, rs_type = Some ''text/plain'', rs_headers = [],
              rs_body = Str ''/''\<rparr>, boot)
   \<and> handleClient sample_lib
     (sample_env\<lparr>e_request := Some \<lparr>rq_method = HTTP_GET, rq_uri = ''/dashboard'',
        rq_cookie = None, rq_args = []\<rparr>\<rparr>) boot
    = (Some \<lparr>rs_status = 303, rs_type = None, rs_headers = [(''Location'', ''/'')],
              rs_body = Str []\<rparr>, boot)
   \<and> handleClient sample_lib
     (sample_env\<lparr>e_request := Some \<lparr>rq_method = HTTP_GET, rq_uri = ''/report'',
        rq_cookie = None, rq_args = []\<rparr>\<rparr>) boot
    = (Some \<lparr>rs_status = 303, rs_type = None, rs_headers = [(''Location'', ''/'')],
              rs_body = Str []\<rparr>, boot)"
proof -
  have na: "\<And>e rq. authenticated e rq boot = (False, boot)"
    by (simp add: authenticated_def is_authenticated_def boot_def)
  show ?thesis
    by (simp add: handleClient_def sample_env_def na handle_dashboard_def handle_report_def
        handle_data_def handle_get_settings_def handle_save_settings_def handle_sms_def
        handle_history_def handle_monthly_data_def send_303_plain_def)
qed

section \<open>Failed sensor reads\<close>

lemma checkAlerts_readings:
  "temperature (checkAlerts L m1 m2 s) = temperature s
   \<and> humidity (checkAlerts L m1 m2 s) = humidity s
   \<and> weight (checkAlerts L m1 m2 s) = weight s
   \<and> mq135_raw (checkAlerts L m1 m2 s) = mq135_raw s
   \<and> lastDbMillis (checkAlerts L m1 m2 s) = lastDbMillis s
   \<and> db_readings (checkAlerts L m1 m2 s) = db_readings s"
  by (simp add: checkAlerts_def triggerSMS_def Serial_println_def split: option.splits)

lemma saveToDatabase_readings:
  "temperature (saveToDatabase L lt ms p st s) = temperature s
   \<and> humidity (saveToDatabase L lt ms p st s) = humidity s
   \<and> weight (saveToDatabase L lt ms p st s) = weight s
   \<and> mq135_raw (saveToDatabase L lt ms p st s) = mq135_raw s"
  by (simp add: saveToDatabase_def Serial_println_def Let_def)

lemma loop_db_readings:
  "temperature (loop_db L e s) = temperature s
   \<and> humidity (loop_db L e s) = humidity s
   \<and> weight (loop_db L e s) = weight s
   \<and> mq135_raw (loop_db L e s) = mq135_raw s"
  by (simp add: loop_db_def saveToDatabase_readings)

lemma read_sensors_values:
  "temperature (read_sensors e s)
     = (if isnan (e_dht_temperature e) then temperature s else e_dht_temperature e)
   \<and> humidity (read_sensors e s)
     = (if isnan (e_dht_humidity e) then humidity s else e_dht_humidity e)
   \<and> weight (read_sensors e s) = (if e_scale_ready e then e_scale_units e else weight s)
   \<and> mq135_raw (read_sensors e s) = e_analog e"
  by (simp add: read_sensors_def Let_def)

lemma before_sensors_same:
  "same_readings s (loop_wifi e (manageSMS now (snd (handleClient L e s))))"
  using handleClient_same [of s L e] manageSMS_same [of "snd (handleClient L e s)" now]
    loop_wifi_same [of "manageSMS now (snd (handleClient L e s))" e]
  by (simp add: same_readings_def)

text \<open>The readings after one pass: a channel changes only by a successful, due read.\<close>

lemma loop_readings:
  "temperature (loop L e s)
     = (if SENSOR_INTERVAL \<le> e_now e - lastSensorMillis s \<and> \<not> isnan (e_dht_temperature e)
        then e_dht_temperature e else temperature s)
   \<and> humidity (loop L e s)
     = (if SENSOR_INTERVAL \<le> e_now e - lastSensorMillis s \<and> \<not> isnan (e_dht_humidity e)
        then e_dht_humidity e else humidity s)
   \<and> weight (loop L e s)
     = (if SENSOR_INTERVAL \<le> e_now e - lastSensorMillis s \<and> e_scale_ready e
        then e_scale_units e else weight s)"
proof -
  let ?c = "loop_wifi e (manageSMS (e_ms_sms e) (snd (handleClient L e s)))"
  have c: "same_readings s ?c" by (rule before_sensors_same)
  have "loop L e s = loop_db L e (loop_sensors L e ?c)"
    by (simp add: loop_def loop_before_db_def)
  then show ?thesis
    using c
    by (simp add: loop_db_readings loop_sensors_def checkAlerts_readings read_sensors_values
        same_readings_def)
qed

lemma run_no_NaN:
  "\<not> isnan (temperature s) \<Longrightarrow> \<not> isnan (humidity s) \<Longrightarrow>
   \<not> isnan (temperature (run L es s)) \<and> \<not> isnan (humidity (run L es s))"
proof (induction es arbitrary: s)
  case Nil
  then show ?case by simp
next
  case (Cons e es)
  have "\<not> isnan (temperature (loop L e s))" "\<not> isnan (humidity (loop L e s))"
    using Cons.prems by (simp_all add: loop_readings)
  then show ?case using Cons.IH [of "loop L e s"] by simp
qed

lemma run_weight:
  "weight (run L es s) = weight s
   \<or> (\<exists>e\<in>set es. e_scale_ready e \<and> weight (run L es s) = e_scale_units e)"
proof (induction es arbitrary: s)
  case Nil
  then show ?case by simp
next
  case (Cons e es)
  have 1: "weight (loop L e s) = weight s
      \<or> (e_scale_ready e \<and> weight (loop L e s) = e_scale_units e)"
    by (simp add: loop_readings)
  show ?case
    using Cons.IH [of "loop L e s"] 1 by auto
qed

text \<open>
  C5. In one pass of \<^verbatim>\<open>loop\<close>, a NaN temperature read leaves the shared temperature as
  it was, a NaN humidity read leaves the shared humidity as it was, and a load cell that
  is not ready leaves the shared weight as it was; a temperature or humidity that is not
  NaN before the pass is not NaN after it. Over any sequence of passes from power-on,
  whatever the reads and the requests served, the shared temperature and humidity are
  never NaN, and the shared weight is the initial 0 or a reading the load cell delivered
  when it was ready.
\<close>

theorem failed_read_keeps_last_value:
  "(isnan (e_dht_temperature e) \<longrightarrow> temperature (loop L e s) = temperature s)
   \<and> (isnan (e_dht_humidity e) \<longrightarrow> humidity (loop L e s) = humidity s)
   \<and> (\<not> e_scale_ready e \<longrightarrow> weight (loop L e s) = weight s)
   \<and> (\<not> isnan (temperature s) \<longrightarrow> \<not> isnan (temperature (loop L e s)))
   \<and> (\<not> isnan (humidity s) \<longrightarrow> \<not> isnan (humidity (loop L e s)))
   \<and> \<not> isnan (temperature (run L es boot)) \<and> \<not> isnan (humidity (run L es boot))
   \<and> (weight (run L es boot) = Finite 0
       \<or> (\<exists>e\<in>set es. e_scale_ready e \<and> weight (run L es boot) = e_scale_units e))"
proof -
  have b: "\<not> isnan (temperature boot)" "\<not> isnan (humidity boot)" "weight boot = Finite 0"
    by (simp_all add: boot_def)
  have r: "\<not> isnan (temperature (run L es boot)) \<and> \<not> isnan (humidity (run L es boot))"
    using b(1,2) by (rule run_no_NaN)
  have w: "weight (run L es boot) = Finite 0
       \<or> (\<exists>e\<in>set es. e_scale_ready e \<and> weight (run L es boot) = e_scale_units e)"
    using run_weight [of L es boot] b(3) by simp
  have l: "(isnan (e_dht_temperature e) \<longrightarrow> temperature (loop L e s) = temperature s)
   \<and> (isnan (e_dht_humidity e) \<longrightarrow> humidity (loop L e s) = humidity s)
   \<and> (\<not> e_scale_ready e \<longrightarrow> weight (loop L e s) = weight s)
   \<and> (\<not> isnan (temperature s) \<longrightarrow> \<not> isnan (temperature (loop L e s)))
   \<and> (\<not> isnan (humidity s) \<longrightarrow> \<not> isnan (humidity (loop L e s)))"
    by (simp add: loop_readings)
  show ?thesis using r w l by blast
qed

theorem failed_read_keeps_last_value_witness:
  "isnan (e_dht_temperature (sample_env\<lparr>e_now := 2000, e_dht_humidity := Finite 55\<rparr>))
   \<and> temperature (loop sample_lib (sample_env\<lparr>e_now := 2000, e_dht_humidity := Finite 55\<rparr>)
        (boot\<lparr>temperature := Finite 21\<rparr>)) = Finite 21
   \<and> weight (loop sample_lib (sample_env\<lparr>e_now := 2000, e_dht_humidity := Finite 55\<rparr>)
        (boot\<lparr>temperature := Finite 21\<rparr>)) = Finite 0
   \<and> isnan (e_dht_humidity sample_env)
   \<and> humidity (loop sample_lib sample_env (boot\<lparr>humidity := Finite 60\<rparr>)) = Finite 60
   \<and> isnan (temperature (loop sample_lib (sample_env\<lparr>e_now := 2000, e_dht_humidity := Finite 55\<rparr>)
        (boot\<lparr>temperature := Finite 21\<rparr>))) = False
   \<and> isnan (humidity (loop sample_lib sample_env (boot\<lparr>humidity := Finite 60\<rparr>))) = False
   \<and> isnan (temperature (run sample_lib
        [sample_env\<lparr>e_now := 2000, e_dht_humidity := Finite 55\<rparr>, sample_env] boot)) = False"
proof -
  let ?e = "sample_env\<lparr>e_now := 2000, e_dht_humidity := Finite 55\<rparr>"
  let ?s = "boot\<lparr>temperature := Finite 21\<rparr>"
  let ?s2 = "boot\<lparr>humidity := Finite 60\<rparr>"
  note T = failed_read_keeps_last_value
  note A = T [where e = ?e and s = ?s and L = sample_lib and es = "[?e, sample_env]"]
  note B = T [where e = sample_env and s = ?s2 and L = sample_lib and es = "[]"]
  have 1: "isnan (e_dht_temperature ?e)" by (simp add: sample_env_def)
  have 2: "\<not> e_scale_ready ?e" by (simp add: sample_env_def)
  have 3: "isnan (e_dht_humidity sample_env)" by (simp add: sample_env_def)
  have 4: "\<not> isnan (temperature ?s)" by simp
  have 5: "\<not> isnan (humidity ?s2)" by simp
  have a: "temperature (loop sample_lib ?e ?s) = Finite 21"
    using A [THEN conjunct1, rule_format, OF 1] by simp
  have b: "weight (loop sample_lib ?e ?s) = Finite 0"
    using A [THEN conjunct2, THEN conjunct2, THEN conjunct1, rule_format, OF 2]
    by (simp add: boot_def)
  have c: "humidity (loop sample_lib sample_env ?s2) = Finite 60"
    using B [THEN conjunct2, THEN conjunct1, rule_format, OF 3] by simp
  have d: "\<not> isnan (temperature (loop sample_lib ?e ?s))"
    using A [THEN conjunct2, THEN conjunct2, THEN conjunct2, THEN conjunct1, rule_format, OF 4] .
  have e: "\<not> isnan (humidity (loop sample_lib sample_env ?s2))"
    using B [THEN conjunct2, THEN conjunct2, THEN conjunct2, THEN conjunct2, THEN conjunct1,
        rule_format, OF 5] .
  have f: "\<not> isnan (temperature (run sample_lib [?e, sample_env] boot))"
    using A [THEN conjunct2, THEN conjunct2, THEN conjunct2, THEN conjunct2, THEN conjunct2,
        THEN conjunct1] .
  show ?thesis using 1 3 a b c d e f by simp
qed

section \<open>Saving while a message is being sent\<close>

lemma loop_before_db_same:
  "lastDbMillis (loop_before_db L e s) = lastDbMillis s
   \<and> db_readings (loop_before_db L e s) = db_readings s"
proof -
  let ?c = "loop_wifi e (manageSMS (e_ms_sms e) (snd (handleClient L e s)))"
  have c: "same_readings s ?c" by (rule before_sensors_same)
  have r: "lastDbMillis (read_sensors e x) = lastDbMillis x
      \<and> db_readings (read_sensors e x) = db_readings x" for x
    by (simp add: read_sensors_def Let_def)
  show ?thesis
    using c by (simp add: loop_before_db_def loop_sensors_def checkAlerts_readings r same_readings_def)
qed

lemma saveToDatabase_rows:
  "lastDbMillis (saveToDatabase L lt ms p st s) = lastDbMillis s
   \<and> length (db_readings (saveToDatabase L lt ms p st s))
       = (if p \<and> st then Suc (length (db_readings s)) else length (db_readings s))"
  by (simp add: saveToDatabase_def Serial_println_def Let_def)

lemma loop_db_skip:
  "currentSmsState s \<noteq> SMS_IDLE \<Longrightarrow> loop_db L e s = s"
  by (simp add: loop_db_def)

lemma loop_db_save:
  "DB_SAVE_INTERVAL \<le> e_now e - lastDbMillis s \<Longrightarrow> currentSmsState s = SMS_IDLE \<Longrightarrow>
   loop_db L e s
     = saveToDatabase L (e_local_time e) (e_ms_save e) (e_save_prepare_ok e) (e_save_step_ok e)
         (s\<lparr>lastDbMillis := e_now e\<rparr>)"
  by (simp add: loop_db_def)

lemma loop_db_rows: "length (db_readings (loop_db L e s)) \<le> Suc (length (db_readings s))"
  by (simp add: loop_db_def saveToDatabase_rows)

lemma millis_interval_elapsed:
  assumes "t0 + 30000 \<le> t" and "t - t0 < 2 ^ 32"
  shows "DB_SAVE_INTERVAL \<le> millis t - millis t0"
proof -
  have "unat (millis t - millis t0) = t - t0"
    using assms by (intro millis_elapsed) simp_all
  then show ?thesis
    using assms(1) by (simp add: word_le_nat_alt DB_SAVE_INTERVAL_def)
qed

lemma loop_skip:
  assumes "currentSmsState (loop_before_db L e s) \<noteq> SMS_IDLE"
  shows "loop L e s = loop_before_db L e s \<and> db_readings (loop L e s) = db_readings s
         \<and> lastDbMillis (loop L e s) = lastDbMillis s"
  using assms by (simp add: loop_def loop_db_skip loop_before_db_same)

lemma loop_save_eq:
  assumes "DB_SAVE_INTERVAL \<le> e_now e - lastDbMillis s"
    and "currentSmsState (loop_before_db L e s) = SMS_IDLE"
  shows "loop L e s
           = saveToDatabase L (e_local_time e) (e_ms_save e) (e_save_prepare_ok e)
               (e_save_step_ok e) ((loop_before_db L e s)\<lparr>lastDbMillis := e_now e\<rparr>)"
proof -
  have "DB_SAVE_INTERVAL \<le> e_now e - lastDbMillis (loop_before_db L e s)"
    using assms(1) by (simp add: loop_before_db_same)
  then show ?thesis
    using assms(2) by (simp add: loop_def loop_db_save)
qed

lemma loop_save_rows:
  assumes "DB_SAVE_INTERVAL \<le> e_now e - lastDbMillis s"
    and "currentSmsState (loop_before_db L e s) = SMS_IDLE"
  shows "lastDbMillis (loop L e s) = e_now e
         \<and> length (db_readings (loop L e s))
             = (if e_save_prepare_ok e \<and> e_save_step_ok e then Suc (length (db_readings s))
                else length (db_readings s))"
  by (simp add: loop_save_eq [OF assms] saveToDatabase_rows loop_before_db_same)

lemma loop_rows: "length (db_readings (loop L e s)) \<le> Suc (length (db_readings s))"
  using loop_db_rows [of L e "loop_before_db L e s"]
  by (simp add: loop_def loop_before_db_same)

lemma run_skipped:
  "all_skipped L es s \<Longrightarrow>
   db_readings (run L es s) = db_readings s \<and> lastDbMillis (run L es s) = lastDbMillis s"
proof (induction es arbitrary: s)
  case Nil
  then show ?case by simp
next
  case (Cons e es)
  have 1: "db_readings (loop L e s) = db_readings s" "lastDbMillis (loop L e s) = lastDbMillis s"
    using Cons.prems by (simp_all add: loop_def loop_db_skip loop_before_db_same)
  have "all_skipped L es (loop L e s)" using Cons.prems by simp
  then show ?case using Cons.IH [of "loop L e s"] 1 by simp
qed

lemma skipped_then_save:
  assumes "lastDbMillis s = millis t0" and "t0 + 30000 \<le> t'" and "t' - t0 < 2 ^ 32"
    and "e_now e' = millis t'"
    and "all_skipped L es s"
    and "currentSmsState (loop_before_db L e' (run L es s)) = SMS_IDLE"
  shows "lastDbMillis (loop L e' (run L es s)) = millis t'
         \<and> length (db_readings (loop L e' (run L es s)))
             = (if e_save_prepare_ok e' \<and> e_save_step_ok e' then Suc (length (db_readings s))
                else length (db_readings s))"
proof -
  have 1: "db_readings (run L es s) = db_readings s" "lastDbMillis (run L es s) = millis t0"
    using assms(1) run_skipped [OF assms(5)] by simp_all
  have "DB_SAVE_INTERVAL \<le> millis t' - millis t0"
    using assms(2,3) by (rule millis_interval_elapsed)
  then have "DB_SAVE_INTERVAL \<le> e_now e' - lastDbMillis (run L es s)"
    using 1 assms(4) by simp
  then show ?thesis
    using loop_save_rows [of e' "run L es s" L] assms(4,6) 1 by simp
qed

text \<open>
  C6. \<open>loop_before_db\<close> is the state in which a pass reaches its database block. If the
  dispatcher is not idle there, the block does nothing: no row is appended and
  \<^verbatim>\<open>lastDbMillis\<close> keeps its value. If the interval has elapsed and the dispatcher is idle
  there, the pass stamps \<^verbatim>\<open>lastDbMillis\<close> with \<open>now\<close> and calls \<^verbatim>\<open>saveToDatabase\<close>, which
  appends one row when SQLite accepts it. A pass never appends more than one row. So
  after any number of skipped passes the table and the deadline are as before, and the
  first pass that then finds the dispatcher idle, at a time \<open>t'\<close> at least 30000 ms after
  the last save, saves once: one row, not one per skipped pass (the 32-bit clock not
  having wrapped since the last save).
\<close>

theorem db_save_deferred_while_sending:
  "(currentSmsState (loop_before_db L e s) \<noteq> SMS_IDLE \<longrightarrow>
      loop L e s = loop_before_db L e s \<and> db_readings (loop L e s) = db_readings s
      \<and> lastDbMillis (loop L e s) = lastDbMillis s)
   \<and> (DB_SAVE_INTERVAL \<le> e_now e - lastDbMillis s
       \<and> currentSmsState (loop_before_db L e s) = SMS_IDLE \<longrightarrow>
      loop L e s
        = saveToDatabase L (e_local_time e) (e_ms_save e) (e_save_prepare_ok e)
            (e_save_step_ok e) ((loop_before_db L e s)\<lparr>lastDbMillis := e_now e\<rparr>)
      \<and> lastDbMillis (loop L e s) = e_now e
      \<and> length (db_readings (loop L e s))
          = (if e_save_prepare_ok e \<and> e_save_step_ok e then Suc (length (db_readings s))
             else length (db_readings s)))
   \<and> length (db_readings (loop L e s)) \<le> Suc (length (db_readings s))
   \<and> (all_skipped L es s \<longrightarrow>
        db_readings (run L es s) = db_readings s \<and> lastDbMillis (run L es s) = lastDbMillis s)
   \<and> (lastDbMillis s = millis t0 \<and> t0 + 30000 \<le> t' \<and> t' - t0 < 2 ^ 32
       \<and> e_now e' = millis t' \<and> all_skipped L es s
       \<and> currentSmsState (loop_before_db L e' (run L es s)) = SMS_IDLE \<longrightarrow>
      lastDbMillis (loop L e' (run L es s)) = millis t'
      \<and> length (db_readings (loop L e' (run L es s)))
          = (if e_save_prepare_ok e' \<and> e_save_step_ok e' then Suc (length (db_readings s))
             else length (db_readings s)))"
  using loop_skip [of L e s] loop_save_eq [of e s L] loop_save_rows [of e s L] loop_rows [of L e s]
    run_skipped [of L es s] skipped_then_save [of s t0 t' e' L es]
  by blast

lemmas eval_defs = loop_def loop_db_def loop_before_db_def loop_sensors_def loop_wifi_def
  read_sensors_def checkAlerts_def handleClient_def manageSMS_def saveToDatabase_def
  getTimestamp_def Serial_println_def sample_env_def boot_def millis_def
  SENSOR_INTERVAL_def SMS_COOLDOWN_def DB_SAVE_INTERVAL_def Let_def

theorem db_save_deferred_while_sending_witness:
  "currentSmsState (loop_before_db sample_lib
      (sample_env\<lparr>e_ms_sms := millis 30000, e_now := millis 30000, e_ms_alert1 := millis 30000\<rparr>)
      (boot\<lparr>currentSmsState := SMS_WAIT, smsTimer := millis 29000\<rparr>)) = SMS_WAIT
   \<and> db_readings (loop sample_lib
      (sample_env\<lparr>e_ms_sms := millis 30000, e_now := millis 30000, e_ms_alert1 := millis 30000\<rparr>)
      (boot\<lparr>currentSmsState := SMS_WAIT, smsTimer := millis 29000\<rparr>)) = []
   \<and> lastDbMillis (loop sample_lib
      (sample_env\<lparr>e_ms_sms := millis 30000, e_now := millis 30000, e_ms_alert1 := millis 30000\<rparr>)
      (boot\<lparr>currentSmsState := SMS_WAIT, smsTimer := millis 29000\<rparr>)) = 0
   \<and> all_skipped sample_lib
      [sample_env\<lparr>e_ms_sms := millis 30000, e_now := millis 30000, e_ms_alert1 := millis 30000\<rparr>]
      (boot\<lparr>currentSmsState := SMS_WAIT, smsTimer := millis 29000\<rparr>)
   \<and> db_readings (run sample_lib
      [sample_env\<lparr>e_ms_sms := millis 30000, e_now := millis 30000, e_ms_alert1 := millis 30000\<rparr>]
      (boot\<lparr>currentSmsState := SMS_WAIT, smsTimer := millis 29000\<rparr>)) = []
   \<and> lastDbMillis (loop sample_lib
      (sample_env\<lparr>e_ms_sms := millis 33000, e_now := millis 33000, e_ms_alert1 := millis 33000\<rparr>)
      (run sample_lib
        [sample_env\<lparr>e_ms_sms := millis 30000, e_now := millis 30000, e_ms_alert1 := millis 30000\<rparr>]
        (boot\<lparr>currentSmsState := SMS_WAIT, smsTimer := millis 29000\<rparr>))) = millis 33000
   \<and> length (db_readings (loop sample_lib
      (sample_env\<lparr>e_ms_sms := millis 33000, e_now := millis 33000, e_ms_alert1 := millis 33000\<rparr>)
      (run sample_lib
        [sample_env\<lparr>e_ms_sms := millis 30000, e_now := millis 30000, e_ms_alert1 := millis 30000\<rparr>]
        (boot\<lparr>currentSmsState := SMS_WAIT, smsTimer := millis 29000\<rparr>)))) = 1
   \<and> length (db_readings (loop sample_lib (sample_env\<lparr>e_now := millis 30000\<rparr>) boot)) = 1"
proof -
  let ?e = "sample_env\<lparr>e_ms_sms := millis 30000, e_now := millis 30000, e_ms_alert1 := millis 30000\<rparr>"
  let ?e' = "sample_env\<lparr>e_ms_sms := millis 33000, e_now := millis 33000, e_ms_alert1 := millis 33000\<rparr>"
  let ?s = "boot\<lparr>currentSmsState := SMS_WAIT, smsTimer := millis 29000\<rparr>"
  note T = db_save_deferred_while_sending
  have w: "currentSmsState (loop_before_db sample_lib ?e ?s) = SMS_WAIT"
    by (simp add: eval_defs)
  then have busy: "currentSmsState (loop_before_db sample_lib ?e ?s) \<noteq> SMS_IDLE"
    by simp
  have skip: "loop sample_lib ?e ?s = loop_before_db sample_lib ?e ?s
      \<and> db_readings (loop sample_lib ?e ?s) = db_readings ?s
      \<and> lastDbMillis (loop sample_lib ?e ?s) = lastDbMillis ?s"
    by (rule T [THEN conjunct1, rule_format, OF busy])
  have sk: "all_skipped sample_lib [?e] ?s"
    using busy by simp
  have full: "run sample_lib [?e] ?s
      = boot\<lparr>currentSmsState := SMS_WAIT, smsTimer := millis 29000,
          lastWifiCheck := millis 30000, lastSensorMillis := millis 30000\<rparr>"
    by (simp add: eval_defs)
  have idle: "currentSmsState (loop_before_db sample_lib ?e' (run sample_lib [?e] ?s)) = SMS_IDLE"
    unfolding full by (simp add: eval_defs)
  have h: "lastDbMillis ?s = millis 0 \<and> (0::nat) + 30000 \<le> 33000
      \<and> (33000::nat) - 0 < 2 ^ 32 \<and> e_now ?e' = millis 33000
      \<and> all_skipped sample_lib [?e] ?s
      \<and> currentSmsState (loop_before_db sample_lib ?e' (run sample_lib [?e] ?s)) = SMS_IDLE"
    using sk idle by (simp add: boot_def millis_def)
  have two: "lastDbMillis (loop sample_lib ?e' (run sample_lib [?e] ?s)) = millis 33000
      \<and> length (db_readings (loop sample_lib ?e' (run sample_lib [?e] ?s)))
          = (if e_save_prepare_ok ?e' \<and> e_save_step_ok ?e' then Suc (length (db_readings ?s))
             else length (db_readings ?s))"
    by (rule T [THEN conjunct2, THEN conjunct2, THEN conjunct2, THEN conjunct2, rule_format, OF h])
  have i0: "DB_SAVE_INTERVAL \<le> e_now (sample_env\<lparr>e_now := millis 30000\<rparr>) - lastDbMillis boot
      \<and> currentSmsState (loop_before_db sample_lib (sample_env\<lparr>e_now := millis 30000\<rparr>) boot)
          = SMS_IDLE"
    by (simp add: eval_defs)
  have one: "length (db_readings (loop sample_lib (sample_env\<lparr>e_now := millis 30000\<rparr>) boot)) = 1"
    using T [THEN conjunct2, THEN conjunct1, rule_format, OF i0, THEN conjunct2, THEN conjunct2]
    by (simp add: sample_env_def boot_def)
  have c2: "db_readings (loop sample_lib ?e ?s) = []"
    using skip [THEN conjunct2, THEN conjunct1] by (simp add: boot_def)
  have c3: "lastDbMillis (loop sample_lib ?e ?s) = 0"
    using skip [THEN conjunct2, THEN conjunct2] by (simp add: boot_def)
  have c3': "db_readings (run sample_lib [?e] ?s) = []"
    using T [where es = "[?e]" and s = ?s and L = sample_lib, THEN conjunct2, THEN conjunct2,
        THEN conjunct2, THEN conjunct1, rule_format, OF sk, THEN conjunct1]
    by (simp add: boot_def)
  have c4: "lastDbMillis (loop sample_lib ?e' (run sample_lib [?e] ?s)) = millis 33000"
    by (rule two [THEN conjunct1])
  have c5: "length (db_readings (loop sample_lib ?e' (run sample_lib [?e] ?s))) = 1"
    using two [THEN conjunct2] by (simp add: boot_def sample_env_def)
  show ?thesis
    using w c2 c3 sk c3' c4 c5 one by blast
qed

section \<open>Monthly averages\<close>

lemma lower_marker: "map ascii_tolower ''Offline-'' = ''offline-''"
  by code_simp

lemma like_Offline_marker:
  assumes "take 8 ts = ''Offline-''"
  shows "like_Offline ts"
proof -
  have "map ascii_tolower (take 8 ts) = map ascii_tolower ''Offline-''"
    by (simp only: assms)
  then show ?thesis
    unfolding like_Offline_def by (simp only: lower_marker)
qed

text \<open>The rows that pass the \<^verbatim>\<open>WHERE\<close> clause, and the days of the result.\<close>

lemma query_monthly_days:
  "map m_day (query_monthly rows)
     = take 30 (rev (sort (remdups (map (\<lambda>r. substr_1_10 (r_timestamp r))
         (filter (\<lambda>r. \<not> like_Offline (r_timestamp r)) rows)))))"
  by (simp add: query_monthly_def Let_def comp_def)

lemma query_monthly_length: "length (query_monthly rows) \<le> 30"
  by (simp add: query_monthly_def Let_def)

lemma days_descending:
  "sorted_wrt (\<lambda>a b. b < a) (rev (sort (remdups (xs :: string list))))"
proof -
  have "sorted_wrt (<) (sort (remdups xs))"
    by (simp add: strict_sorted_iff)
  then show ?thesis by (simp add: sorted_wrt_rev)
qed

lemma query_monthly_descending:
  "sorted_wrt (\<lambda>a b. b < a) (map m_day (query_monthly rows))"
  unfolding query_monthly_days by (intro sorted_wrt_take days_descending)

lemma query_monthly_day_source:
  assumes "m \<in> set (query_monthly rows)"
  shows "\<exists>r\<in>set rows. \<not> like_Offline (r_timestamp r) \<and> m_day m = substr_1_10 (r_timestamp r)"
proof -
  have "m_day m \<in> set (map m_day (query_monthly rows))"
    using assms by simp
  then have "m_day m \<in> set (rev (sort (remdups (map (\<lambda>r. substr_1_10 (r_timestamp r))
         (filter (\<lambda>r. \<not> like_Offline (r_timestamp r)) rows)))))"
    unfolding query_monthly_days by (rule in_set_takeD)
  then show ?thesis by auto
qed

lemma query_monthly_row:
  assumes "m \<in> set (query_monthly rows)"
  shows "m = \<lparr>m_day = m_day m,
           m_avg_temp = sql_avg (map r_temp (filter (\<lambda>r. \<not> like_Offline (r_timestamp r)
              \<and> substr_1_10 (r_timestamp r) = m_day m) rows)),
           m_avg_hum = sql_avg (map r_hum (filter (\<lambda>r. \<not> like_Offline (r_timestamp r)
              \<and> substr_1_10 (r_timestamp r) = m_day m) rows)),
           m_avg_weight = sql_avg (map r_weight (filter (\<lambda>r. \<not> like_Offline (r_timestamp r)
              \<and> substr_1_10 (r_timestamp r) = m_day m) rows)),
           m_avg_mq = sql_avg (map (\<lambda>r. Some (real_of_int (r_mq r)))
              (filter (\<lambda>r. \<not> like_Offline (r_timestamp r)
              \<and> substr_1_10 (r_timestamp r) = m_day m) rows))\<rparr>"
proof -
  have c: "(\<lambda>r. substr_1_10 (r_timestamp r) = d \<and> \<not> like_Offline (r_timestamp r))
      = (\<lambda>r. \<not> like_Offline (r_timestamp r) \<and> substr_1_10 (r_timestamp r) = d)" for d
    by auto
  show ?thesis
    using assms by (auto simp: query_monthly_def Let_def c)
qed

lemma sql_avg_Some:
  "xs \<noteq> [] \<Longrightarrow> sql_avg (map Some xs) = Some (sum_list xs / real (length xs))"
proof -
  have "concat (map (\<lambda>v. case v of None \<Rightarrow> [] | Some x \<Rightarrow> [x]) (map Some xs)) = xs"
    by (induction xs) simp_all
  then show "xs \<noteq> [] \<Longrightarrow> sql_avg (map Some xs) = Some (sum_list xs / real (length xs))"
    by (simp add: sql_avg_def)
qed

lemma query_monthly_drop_marked:
  "query_monthly (filter (\<lambda>r. take 8 (r_timestamp r) \<noteq> ''Offline-'') rows) = query_monthly rows"
proof -
  have "filter (\<lambda>r. \<not> like_Offline (r_timestamp r))
          (filter (\<lambda>r. take 8 (r_timestamp r) \<noteq> ''Offline-'') rows)
        = filter (\<lambda>r. \<not> like_Offline (r_timestamp r)) rows"
    using like_Offline_marker by (auto simp: filter_filter intro: filter_cong)
  then show ?thesis by (simp add: query_monthly_def)
qed

lemma query_monthly_most_recent:
  assumes "r \<in> set rows" and "\<not> like_Offline (r_timestamp r)"
  shows "substr_1_10 (r_timestamp r) \<in> set (map m_day (query_monthly rows))
         \<or> (length (query_monthly rows) = 30
             \<and> (\<forall>m\<in>set (query_monthly rows). substr_1_10 (r_timestamp r) < m_day m))"
proof -
  let ?days = "rev (sort (remdups (map (\<lambda>r. substr_1_10 (r_timestamp r))
         (filter (\<lambda>r. \<not> like_Offline (r_timestamp r)) rows))))"
  let ?d = "substr_1_10 (r_timestamp r)"
  have d: "?d \<in> set ?days" using assms by auto
  have s: "sorted_wrt (\<lambda>a b. b < a) (take 30 ?days @ drop 30 ?days)"
    using days_descending [of "map (\<lambda>r. substr_1_10 (r_timestamp r))
         (filter (\<lambda>r. \<not> like_Offline (r_timestamp r)) rows)"] by simp
  have "?d \<in> set (take 30 ?days) \<or> ?d \<in> set (drop 30 ?days)"
    using d by (metis Un_iff append_take_drop_id set_append)
  then show ?thesis
  proof
    assume "?d \<in> set (take 30 ?days)"
    then show ?thesis by (simp add: query_monthly_days)
  next
    assume dd: "?d \<in> set (drop 30 ?days)"
    then have "drop 30 ?days \<noteq> []" by auto
    then have "30 < length ?days" by simp
    then have l: "length (query_monthly rows) = 30"
      using arg_cong [OF query_monthly_days [of rows], of length] by simp
    have "\<forall>x\<in>set (take 30 ?days). ?d < x"
      using s dd unfolding sorted_wrt_append by blast
    then have "\<forall>m\<in>set (query_monthly rows). ?d < m_day m"
      using query_monthly_days [of rows] by (metis image_eqI set_map)
    then show ?thesis using l by blast
  qed
qed

lemma saveToDatabase_offline:
  "db_readings (saveToDatabase L None ms True True s)
     = db_readings s @ [\<lparr>r_timestamp = ''Offline-'' @ printf_02lu L (ms div 1000),
          r_temp = bind_double (temperature s), r_hum = bind_double (humidity s),
          r_weight = bind_double (weight s), r_mq = mq135_raw s\<rparr>]"
  by (simp add: saveToDatabase_def getTimestamp_def Serial_println_def Let_def)

lemma query_monthly_after_offline_save:
  "query_monthly (db_readings (saveToDatabase L None ms True True s))
     = query_monthly (db_readings s)"
proof -
  have "like_Offline (''Offline-'' @ printf_02lu L (ms div 1000))"
    by (rule like_Offline_marker) simp
  then show ?thesis
    by (simp add: saveToDatabase_offline query_monthly_def)
qed

lemma query_monthly_mq:
  assumes "m \<in> set (query_monthly rows)"
  shows "m_avg_mq m
     = Some (sum_list (map (\<lambda>r. real_of_int (r_mq r))
               (filter (\<lambda>r. \<not> like_Offline (r_timestamp r) \<and> take 10 (r_timestamp r) = m_day m) rows))
             / real (length
               (filter (\<lambda>r. \<not> like_Offline (r_timestamp r) \<and> take 10 (r_timestamp r) = m_day m) rows)))"
proof -
  let ?g = "filter (\<lambda>r. \<not> like_Offline (r_timestamp r) \<and> substr_1_10 (r_timestamp r) = m_day m) rows"
  obtain r where "r \<in> set rows" "\<not> like_Offline (r_timestamp r)"
    "m_day m = substr_1_10 (r_timestamp r)"
    using query_monthly_day_source [OF assms] by blast
  then have "r \<in> set ?g" by simp
  then have "?g \<noteq> []" by (metis empty_iff empty_set)
  then have ne: "map (\<lambda>r. real_of_int (r_mq r)) ?g \<noteq> []" by simp
  have "m_avg_mq m = sql_avg (map (\<lambda>r. Some (real_of_int (r_mq r))) ?g)"
    using arg_cong [OF query_monthly_row [OF assms], of m_avg_mq] by simp
  also have "\<dots> = sql_avg (map Some (map (\<lambda>r. real_of_int (r_mq r)) ?g))"
    by (simp add: comp_def)
  also have "\<dots> = Some (sum_list (map (\<lambda>r. real_of_int (r_mq r)) ?g)
        / real (length (map (\<lambda>r. real_of_int (r_mq r)) ?g)))"
    using ne by (rule sql_avg_Some)
  finally show ?thesis by (simp add: substr_1_10_def)
qed

lemma query_monthly_bucket:
  assumes "m \<in> set (query_monthly rows)"
  shows "(\<exists>r\<in>set rows. take 8 (r_timestamp r) \<noteq> ''Offline-'' \<and> m_day m = take 10 (r_timestamp r))
     \<and> m_avg_temp m = sql_avg (map r_temp
          (filter (\<lambda>r. \<not> like_Offline (r_timestamp r) \<and> take 10 (r_timestamp r) = m_day m) rows))
     \<and> m_avg_hum m = sql_avg (map r_hum
          (filter (\<lambda>r. \<not> like_Offline (r_timestamp r) \<and> take 10 (r_timestamp r) = m_day m) rows))
     \<and> m_avg_weight m = sql_avg (map r_weight
          (filter (\<lambda>r. \<not> like_Offline (r_timestamp r) \<and> take 10 (r_timestamp r) = m_day m) rows))
     \<and> m_avg_mq m
         = Some (sum_list (map (\<lambda>r. real_of_int (r_mq r))
               (filter (\<lambda>r. \<not> like_Offline (r_timestamp r) \<and> take 10 (r_timestamp r) = m_day m) rows))
             / real (length
               (filter (\<lambda>r. \<not> like_Offline (r_timestamp r) \<and> take 10 (r_timestamp r) = m_day m) rows)))"
proof -
  obtain r where r: "r \<in> set rows" "\<not> like_Offline (r_timestamp r)"
    "m_day m = substr_1_10 (r_timestamp r)"
    using query_monthly_day_source [OF assms] by blast
  then have "take 8 (r_timestamp r) \<noteq> ''Offline-''"
    using like_Offline_marker by blast
  then have a: "\<exists>r\<in>set rows. take 8 (r_timestamp r) \<noteq> ''Offline-'' \<and> m_day m = take 10 (r_timestamp r)"
    using r by (auto simp: substr_1_10_def)
  note R = query_monthly_row [OF assms, unfolded substr_1_10_def]
  have b: "m_avg_temp m = sql_avg (map r_temp
          (filter (\<lambda>r. \<not> like_Offline (r_timestamp r) \<and> take 10 (r_timestamp r) = m_day m) rows))"
    using arg_cong [OF R, of m_avg_temp] by simp
  have c: "m_avg_hum m = sql_avg (map r_hum
          (filter (\<lambda>r. \<not> like_Offline (r_timestamp r) \<and> take 10 (r_timestamp r) = m_day m) rows))"
    using arg_cong [OF R, of m_avg_hum] by simp
  have d: "m_avg_weight m = sql_avg (map r_weight
          (filter (\<lambda>r. \<not> like_Offline (r_timestamp r) \<and> take 10 (r_timestamp r) = m_day m) rows))"
    using arg_cong [OF R, of m_avg_weight] by simp
  show ?thesis
    using a b c d query_monthly_mq [OF assms] by blast
qed

lemma handle_monthly_data_body:
  assumes "fst (authenticated e rq s)" and "e_prepare_ok e"
  shows "rs_body (fst (handle_monthly_data L e rq s))
     = Str (''['' @ json_rows (map (monthly_json_row L) (query_monthly (db_readings s))) @ '']'')"
proof (cases "authenticated e rq s")
  case (Pair ok s1)
  then have "db_readings s1 = db_readings s"
    using authenticated_same [of e rq s ok s1] by (simp add: same_readings_def)
  then show ?thesis
    using Pair assms by (simp add: handle_monthly_data_def send_json_def)
qed

text \<open>
  C7. For every readings table, the monthly query returns at most 30 rows, their days
  strictly descending (so no day twice). A timestamp that starts with the offline marker
  \<^verbatim>\<open>Offline-\<close> is matched by the \<^verbatim>\<open>LIKE\<close> pattern, so such rows are excluded. Every
  returned row has as its day the first ten characters of the timestamp of some stored
  row without the marker, and its four averages are the SQL averages (of a list without
  NULLs: sum divided by count) over exactly the rows that pass the filter and have that
  day. Every day of a row that passes the filter is returned, unless 30 later days are.
  Removing every row with the marker from the table does not change the result, and a
  row saved by \<^verbatim>\<open>saveToDatabase\<close> while the clock is unavailable does not change it
  either. The route \<^verbatim>\<open>/monthly_data\<close> renders exactly these rows.
\<close>

theorem monthly_averages_exclude_offline:
  "length (query_monthly rows) \<le> 30
   \<and> sorted_wrt (\<lambda>a b. b < a) (map m_day (query_monthly rows))
   \<and> (take 8 ts = ''Offline-'' \<longrightarrow> like_Offline ts)
   \<and> (\<forall>m\<in>set (query_monthly rows).
        (\<exists>r\<in>set rows. take 8 (r_timestamp r) \<noteq> ''Offline-'' \<and> m_day m = take 10 (r_timestamp r))
        \<and> m_avg_temp m = sql_avg (map r_temp
             (filter (\<lambda>r. \<not> like_Offline (r_timestamp r) \<and> take 10 (r_timestamp r) = m_day m) rows))
        \<and> m_avg_hum m = sql_avg (map r_hum
             (filter (\<lambda>r. \<not> like_Offline (r_timestamp r) \<and> take 10 (r_timestamp r) = m_day m) rows))
        \<and> m_avg_weight m = sql_avg (map r_weight
             (filter (\<lambda>r. \<not> like_Offline (r_timestamp r) \<and> take 10 (r_timestamp r) = m_day m) rows))
        \<and> m_avg_mq m
            = Some (sum_list (map (\<lambda>r. real_of_int (r_mq r))
                  (filter (\<lambda>r. \<not> like_Offline (r_timestamp r) \<and> take 10 (r_timestamp r) = m_day m) rows))
                / real (length
                  (filter (\<lambda>r. \<not> like_Offline (r_timestamp r) \<and> take 10 (r_timestamp r) = m_day m) rows))))
   \<and> (xs \<noteq> [] \<longrightarrow> sql_avg (map Some xs) = Some (sum_list xs / real (length xs)))
   \<and> (\<forall>r\<in>set rows. \<not> like_Offline (r_timestamp r) \<longrightarrow>
        take 10 (r_timestamp r) \<in> set (map m_day (query_monthly rows))
        \<or> (length (query_monthly rows) = 30
            \<and> (\<forall>m\<in>set (query_monthly rows). take 10 (r_timestamp r) < m_day m)))
   \<and> query_monthly (filter (\<lambda>r. take 8 (r_timestamp r) \<noteq> ''Offline-'') rows) = query_monthly rows
   \<and> query_monthly (db_readings (saveToDatabase L None ms True True s))
       = query_monthly (db_readings s)
   \<and> (fst (authenticated e rq s) \<and> e_prepare_ok e \<longrightarrow>
        rs_body (fst (handle_monthly_data L e rq s))
          = Str (''['' @ json_rows (map (monthly_json_row L) (query_monthly (db_readings s))) @ '']''))"
proof -
  have 1: "length (query_monthly rows) \<le> 30" by (rule query_monthly_length)
  have 2: "sorted_wrt (\<lambda>a b. b < a) (map m_day (query_monthly rows))"
    by (rule query_monthly_descending)
  have 3: "take 8 ts = ''Offline-'' \<longrightarrow> like_Offline ts"
    using like_Offline_marker by blast
  have 4: "\<forall>m\<in>set (query_monthly rows).
        (\<exists>r\<in>set rows. take 8 (r_timestamp r) \<noteq> ''Offline-'' \<and> m_day m = take 10 (r_timestamp r))
        \<and> m_avg_temp m = sql_avg (map r_temp
             (filter (\<lambda>r. \<not> like_Offline (r_timestamp r) \<and> take 10 (r_timestamp r) = m_day m) rows))
        \<and> m_avg_hum m = sql_avg (map r_hum
             (filter (\<lambda>r. \<not> like_Offline (r_timestamp r) \<and> take 10 (r_timestamp r) = m_day m) rows))
        \<and> m_avg_weight m = sql_avg (map r_weight
             (filter (\<lambda>r. \<not> like_Offline (r_timestamp r) \<and> take 10 (r_timestamp r) = m_day m) rows))
        \<and> m_avg_mq m
            = Some (sum_list (map (\<lambda>r. real_of_int (r_mq r))
                  (filter (\<lambda>r. \<not> like_Offline (r_timestamp r) \<and> take 10 (r_timestamp r) = m_day m) rows))
                / real (length
                  (filter (\<lambda>r. \<not> like_Offline (r_timestamp r) \<and> take 10 (r_timestamp r) = m_day m) rows)))"
    by (intro ballI) (rule query_monthly_bucket)
  have 5: "xs \<noteq> [] \<longrightarrow> sql_avg (map Some xs) = Some (sum_list xs / real (length xs))"
    using sql_avg_Some by blast
  have 6: "\<forall>r\<in>set rows. \<not> like_Offline (r_timestamp r) \<longrightarrow>
        take 10 (r_timestamp r) \<in> set (map m_day (query_monthly rows))
        \<or> (length (query_monthly rows) = 30
            \<and> (\<forall>m\<in>set (query_monthly rows). take 10 (r_timestamp r) < m_day m))"
    using query_monthly_most_recent [of _ rows] unfolding substr_1_10_def by blast
  have 7: "query_monthly (filter (\<lambda>r. take 8 (r_timestamp r) \<noteq> ''Offline-'') rows)
      = query_monthly rows"
    by (rule query_monthly_drop_marked)
  have 8: "query_monthly (db_readings (saveToDatabase L None ms True True s))
       = query_monthly (db_readings s)"
    by (rule query_monthly_after_offline_save)
  have 9: "fst (authenticated e rq s) \<and> e_prepare_ok e \<longrightarrow>
        rs_body (fst (handle_monthly_data L e rq s))
          = Str (''['' @ json_rows (map (monthly_json_row L) (query_monthly (db_readings s))) @ '']'')"
    using handle_monthly_data_body by blast
  from 1 2 3 4 5 6 7 8 9 show ?thesis
    by (intro conjI)
qed

lemma sample_rows_monthly:
  "query_monthly sample_rows
     = [\<lparr>m_day = ''2024-05-02'', m_avg_temp = Some 30, m_avg_hum = Some 60,
          m_avg_weight = Some 12, m_avg_mq = Some 200\<rparr>,
        \<lparr>m_day = ''2024-05-01'', m_avg_temp = Some 21, m_avg_hum = Some 51,
          m_avg_weight = Some (21 / 2), m_avg_mq = Some (201 / 2)\<rparr>]"
  by code_simp

theorem monthly_averages_exclude_offline_witness:
  "length (query_monthly sample_rows) = 2
   \<and> take 8 ''Offline-12'' = ''Offline-''
   \<and> like_Offline ''Offline-12''
   \<and> m_avg_mq \<lparr>m_day = ''2024-05-01'', m_avg_temp = Some 21, m_avg_hum = Some 51,
          m_avg_weight = Some (21 / 2), m_avg_mq = Some (201 / 2)\<rparr>
       = Some (sum_list (map (\<lambda>r. real_of_int (r_mq r))
            (filter (\<lambda>r. \<not> like_Offline (r_timestamp r)
               \<and> take 10 (r_timestamp r) = ''2024-05-01'') sample_rows))
          / real (length (filter (\<lambda>r. \<not> like_Offline (r_timestamp r)
               \<and> take 10 (r_timestamp r) = ''2024-05-01'') sample_rows)))
   \<and> sql_avg (map Some [20, 22]) = Some 21
   \<and> ''2024-05-01'' \<in> set (map m_day (query_monthly sample_rows))
   \<and> query_monthly (filter (\<lambda>r. take 8 (r_timestamp r) \<noteq> ''Offline-'') sample_rows)
       = query_monthly sample_rows
   \<and> query_monthly (db_readings (saveToDatabase sample_lib None 12000 True True
         (boot\<lparr>is_logged_in := True, session_expiry := 1800000, db_readings := sample_rows\<rparr>)))
       = query_monthly sample_rows
   \<and> rs_body (fst (handle_monthly_data sample_lib sample_env
         \<lparr>rq_method = HTTP_GET, rq_uri = ''/monthly_data'', rq_cookie = Some ''ESPSESSIONID=1'',
           rq_args = []\<rparr>
         (boot\<lparr>is_logged_in := True, session_expiry := 1800000, db_readings := sample_rows\<rparr>)))
       = Str (''['' @ json_rows (map (monthly_json_row sample_lib) (query_monthly sample_rows))
              @ '']'')"
proof -
  let ?s = "boot\<lparr>is_logged_in := True, session_expiry := 1800000, db_readings := sample_rows\<rparr>"
  let ?rq = "\<lparr>rq_method = HTTP_GET, rq_uri = ''/monthly_data'',
      rq_cookie = Some ''ESPSESSIONID=1'', rq_args = []\<rparr>"
  let ?m = "\<lparr>m_day = ''2024-05-01'', m_avg_temp = Some 21, m_avg_hum = Some 51,
          m_avg_weight = Some (21 / 2), m_avg_mq = Some (201 / 2)\<rparr>"
  let ?r = "\<lparr>r_timestamp = ''2024-05-01 10:00:00'', r_temp = Some 20, r_hum = Some 50,
       r_weight = Some 10, r_mq = 100\<rparr>"
  note T = monthly_averages_exclude_offline [where rows = sample_rows and ts = "''Offline-12''"
      and xs = "[20, 22]" and L = sample_lib and ms = 12000 and s = ?s and e = sample_env
      and rq = ?rq]
  have len: "length (query_monthly sample_rows) = 2"
    by (simp add: sample_rows_monthly)
  have mk: "take 8 ''Offline-12'' = ''Offline-''" by simp
  have lk: "like_Offline ''Offline-12''"
    by (rule T [THEN conjunct2, THEN conjunct2, THEN conjunct1, rule_format, OF mk])
  have mem: "?m \<in> set (query_monthly sample_rows)"
    by (simp add: sample_rows_monthly)
  have mq: "m_avg_mq ?m
       = Some (sum_list (map (\<lambda>r. real_of_int (r_mq r))
            (filter (\<lambda>r. \<not> like_Offline (r_timestamp r)
               \<and> take 10 (r_timestamp r) = ''2024-05-01'') sample_rows))
          / real (length (filter (\<lambda>r. \<not> like_Offline (r_timestamp r)
               \<and> take 10 (r_timestamp r) = ''2024-05-01'') sample_rows)))"
    using T [THEN conjunct2, THEN conjunct2, THEN conjunct2, THEN conjunct1, rule_format, OF mem]
    by simp
  have ne: "[20, 22 :: real] \<noteq> []" by simp
  have av: "sql_avg (map Some [20, 22]) = Some 21"
    using T [THEN conjunct2, THEN conjunct2, THEN conjunct2, THEN conjunct2, THEN conjunct1,
        rule_format, OF ne]
    by simp
  have rmem: "?r \<in> set sample_rows" by (simp add: sample_rows_def)
  have noff: "\<not> like_Offline (r_timestamp ?r)" by code_simp
  have day: "''2024-05-01'' \<in> set (map m_day (query_monthly sample_rows))"
    using T [THEN conjunct2, THEN conjunct2, THEN conjunct2, THEN conjunct2, THEN conjunct2,
        THEN conjunct1, rule_format, OF rmem noff] len
    by simp
  have dr: "query_monthly (filter (\<lambda>r. take 8 (r_timestamp r) \<noteq> ''Offline-'') sample_rows)
       = query_monthly sample_rows"
    by (rule T [THEN conjunct2, THEN conjunct2, THEN conjunct2, THEN conjunct2, THEN conjunct2,
        THEN conjunct2, THEN conjunct1])
  have sv: "query_monthly (db_readings (saveToDatabase sample_lib None 12000 True True ?s))
       = query_monthly sample_rows"
    using T [THEN conjunct2, THEN conjunct2, THEN conjunct2, THEN conjunct2, THEN conjunct2,
        THEN conjunct2, THEN conjunct2, THEN conjunct1]
    by simp
  have au: "fst (authenticated sample_env ?rq ?s) \<and> e_prepare_ok sample_env"
    by (simp add: authenticated_def is_authenticated_def indexOf_def sample_env_def)
  have bd: "rs_body (fst (handle_monthly_data sample_lib sample_env ?rq ?s))
       = Str (''['' @ json_rows (map (monthly_json_row sample_lib) (query_monthly sample_rows))
              @ '']'')"
    using T [THEN conjunct2, THEN conjunct2, THEN conjunct2, THEN conjunct2, THEN conjunct2,
        THEN conjunct2, THEN conjunct2, THEN conjunct2, rule_format, OF au]
    by simp
  show ?thesis
    using len mk lk mq av day dr sv bd by blast
qed

end
